theory Spec2Isabelle
  imports Complex_Main "HOL-Library.Word"
begin

section \<open>Data model of \<^verbatim>\<open>ncm_model.c\<close>\<close>

text \<open>
  The C code works on \<^verbatim>\<open>guint\<close> counters and indices (32 bits, unsigned, wrapping) and on
  \<^verbatim>\<open>gdouble\<close> values. Counters are modelled as \<open>32 word\<close>, so that the subtractions of
  the property-id arithmetic wrap as they do in C. Doubles are modelled as \<open>real\<close>: only
  their order and equality are used below, on finite values.
\<close>

type_synonym guint = "32 word"
type_synonym gdouble = real

text \<open>\<^verbatim>\<open>GType\<close> identifiers and vector addresses are opaque numbers.\<close>

type_synonym GType = nat
type_synonym addr = nat

datatype NcmParamType = NCM_PARAM_TYPE_FREE | NCM_PARAM_TYPE_FIXED

text \<open>
  Every way in which a function does not return normally is a value of \<open>fatal\<close>:
  \<^verbatim>\<open>g_error\<close> (one constructor per message) and a failed \<^verbatim>\<open>g_assert\<close> or
  \<^verbatim>\<open>g_assert_not_reached\<close>, which abort the program; a failed precondition inside a GLib
  call (\<open>Critical\<close>), after which the code at hand would go on with a null result; and an
  access that is undefined behaviour in C (null pointer, index outside an array). None of
  them hands a result or an error code back to the caller.
\<close>

datatype fatal =
    Error_sparam_already_set guint
  | Error_vparam_already_set guint
  | Error_param_changed_by_reparam string
  | Error_variant_not_aad
  | Error_matrix_dimension guint guint nat nat
  | Assert_failed
  | Assert_not_reached
  | Critical
  | Invalid_memory

text \<open>
  Modelled from the spec: the descriptor of one scalar slot (\<^verbatim>\<open>ncm_sparam.c\<close> and its header
  are missing) holds a name, a symbol, a lower and an upper bound, a scale, an absolute
  tolerance, a default value and a default fit type. These are the arguments that
  \<^verbatim>\<open>ncm_sparam_new\<close> receives in \<^verbatim>\<open>ncm_model_class_set_sparam\<close>.
\<close>

record NcmSParam =
  sparam_name :: string
  sparam_symbol :: string
  sparam_lower_bound :: gdouble
  sparam_upper_bound :: gdouble
  sparam_scale :: gdouble
  sparam_abstol :: gdouble
  sparam_default_value :: gdouble
  sparam_ftype :: NcmParamType

text \<open>
  Modelled from the spec: a reparametrization object (\<^verbatim>\<open>ncm_reparam.c\<close> and its header are
  missing) has a run-time type, a domain length, the vector \<^verbatim>\<open>new_params\<close> it owns (an
  address in the store; \<^verbatim>\<open>ncm_model.c\<close> reads this field), the descriptors of the slots it
  renames, its own name table, and a forward map \<^verbatim>\<open>old2new\<close> and a backward map
  \<^verbatim>\<open>new2old\<close>, which are virtual functions of the transform and may stop the program.
\<close>

record NcmReparam =
  reparam_type :: GType
  reparam_length :: guint
  reparam_new_params :: addr
  reparam_sparams :: "guint \<rightharpoonup> NcmSParam"
  reparam_sparams_name_id :: "string \<rightharpoonup> guint"
  reparam_old2new :: "gdouble list \<Rightarrow> fatal + gdouble list"
  reparam_new2old :: "gdouble list \<Rightarrow> fatal + gdouble list"

text \<open>
  The instance structure \<^verbatim>\<open>NcmModel\<close>. The two vectors \<^verbatim>\<open>params\<close> (original space) and
  \<^verbatim>\<open>p\<close> (working space) are references: two fields holding the same address are the same
  vector. Reference counts are not modelled: they decide only when storage is released.
\<close>

record NcmModel =
  model_type :: GType
  model_sparams :: "NcmSParam option list"
  model_sparams_name_id :: "string \<rightharpoonup> guint"
  model_params :: addr
  model_p :: addr
  model_vparam_len :: "guint list"
  model_vparam_pos :: "guint list"
  model_total_len :: guint
  model_reparam :: "NcmReparam option"
  model_ptypes :: "NcmParamType list"

text \<open>The store of vectors: the contents at every address, and the next unused address.\<close>

record store =
  store_vec :: "addr \<Rightarrow> gdouble list"
  store_next :: addr

section \<open>Fit types\<close>

text \<open>
  \<^verbatim>\<open>g_array_index (model->ptypes, NcmParamType, n)\<close> does not check \<open>n\<close>; outside the array
  the access is undefined behaviour, which the model reports as \<open>Invalid_memory\<close>.
\<close>

definition ncm_model_param_get_ftype :: "NcmModel \<Rightarrow> guint \<Rightarrow> fatal + NcmParamType" where
  "ncm_model_param_get_ftype model n =
     (if unat n < length (model_ptypes model) then Inr (model_ptypes model ! unat n)
      else Inl Invalid_memory)"

definition ncm_model_param_set_ftype :: "NcmModel \<Rightarrow> guint \<Rightarrow> NcmParamType \<Rightarrow> fatal + NcmModel" where
  "ncm_model_param_set_ftype model n ptype =
     (if unat n < length (model_ptypes model)
      then Inr (model\<lparr>model_ptypes := (model_ptypes model)[unat n := ptype]\<rparr>)
      else Inl Invalid_memory)"

section \<open>Comparing two instances\<close>

text \<open>
  Modelled from the spec: \<^verbatim>\<open>ncm_vector_len\<close> (the vector container is missing) is the
  length of the vector stored at an address.
\<close>

definition ncm_vector_len :: "store \<Rightarrow> addr \<Rightarrow> nat" where
  "ncm_vector_len s a = length (store_vec s a)"

definition ncm_model_is_equal :: "store \<Rightarrow> NcmModel \<Rightarrow> NcmModel \<Rightarrow> bool" where
  "ncm_model_is_equal s model1 model2 =
     (if model_type model1 \<noteq> model_type model2 then False
      else if ncm_vector_len s (model_params model1) \<noteq> ncm_vector_len s (model_params model2)
        then False
      else (case model_reparam model1 of
              Some r1 \<Rightarrow>
                (case model_reparam model2 of
                   None \<Rightarrow> False
                 | Some r2 \<Rightarrow> if reparam_type r1 \<noteq> reparam_type r2 then False else True)
            | None \<Rightarrow> True))"


section \<open>The class structure and its registration functions\<close>

text \<open>
  Modelled from the spec: a vector parameter of a class (\<^verbatim>\<open>ncm_vparam.c\<close> and its header are
  missing) is a default length together with the descriptor its components are copied
  from. These are the arguments of \<^verbatim>\<open>ncm_vparam_full_new\<close>.
\<close>

record NcmVParam =
  vparam_length :: guint
  vparam_default_sparam :: NcmSParam

text \<open>
  \<^verbatim>\<open>NcmModelClass\<close>. The two handler fields say whether the function pointers
  \<^verbatim>\<open>model_class->get_property\<close> and \<^verbatim>\<open>model_class->set_property\<close> are non-null. The
  descriptor arrays are null pointers (\<open>None\<close>) until the first call of
  \<^verbatim>\<open>ncm_model_class_add_params\<close> that needs them; an array entry is a null pointer
  (\<open>None\<close>) until the slot is registered. A derived class starts as a copy of its
  parent's class structure, as GObject initialises it.
\<close>

record NcmModelClass =
  class_get_property :: bool
  class_set_property :: bool
  class_nonparam_prop_len :: guint
  class_sparam_len :: guint
  class_vparam_len :: guint
  class_parent_sparam_len :: guint
  class_parent_vparam_len :: guint
  class_sparam :: "NcmSParam option list option"
  class_vparam :: "NcmVParam option list option"

text \<open>
  \<^verbatim>\<open>ncm_model_class_init\<close>: the state of the root class. The two parent counts are not
  assigned there; the class structure is zero-filled when GObject allocates it.
\<close>

definition ncm_model_class_init :: NcmModelClass where
  "ncm_model_class_init =
     \<lparr>class_get_property = False, class_set_property = False,
      class_nonparam_prop_len = 0, class_sparam_len = 0, class_vparam_len = 0,
      class_parent_sparam_len = 0, class_parent_vparam_len = 0,
      class_sparam = None, class_vparam = None\<rparr>"

text \<open>The values that \<open>i\<close> takes in \<^verbatim>\<open>for (i = 0; i < n; i++)\<close> with \<^verbatim>\<open>guint\<close> \<open>i\<close> and \<open>n\<close>.\<close>

definition guint_range :: "guint \<Rightarrow> nat list" where
  "guint_range n = [0..<unat n]"

text \<open>
  Modelled from the spec: \<^verbatim>\<open>ncm_sparam_copy\<close> and \<^verbatim>\<open>ncm_vparam_copy\<close> (their files are
  missing) return a new descriptor equal to their argument. They read through the pointer
  they are given, so a null pointer is an invalid access (in the loops below).
\<close>

definition ncm_sparam_copy :: "NcmSParam \<Rightarrow> NcmSParam" where
  "ncm_sparam_copy sp = sp"

definition ncm_vparam_copy :: "NcmVParam \<Rightarrow> NcmVParam" where
  "ncm_vparam_copy vp = vp"

text \<open>
  The copy loop of \<^verbatim>\<open>ncm_model_class_add_params\<close>, with \<open>copy\<close> one of the two functions
  above: \<^verbatim>\<open>g_ptr_array_index (sparam, i) = ncm_sparam_copy (g_ptr_array_index (model_class->sparam, i))\<close>.
  \<^verbatim>\<open>g_ptr_array_index\<close> is a macro that checks nothing. The store into the new array at an
  index at or past its length (which happens when the new count has wrapped around below
  the parent count) does not stop the program and changes none of the entries of the
  array; the list update of HOL does the same. The read from the old array at an index
  past its length has no value that the program defines; it is the one invalid access
  here, and no class set up from the root class reaches it (lemma \<open>class_setup_arrays\<close>).
\<close>

fun copy_parent_params ::
  "('a \<Rightarrow> 'a) \<Rightarrow> 'a option list \<Rightarrow> nat list \<Rightarrow> 'a option list \<Rightarrow> fatal + 'a option list" where
  "copy_parent_params copy old [] new = Inr new"
| "copy_parent_params copy old (i # is) new =
     (if i < length old then
        (case old ! i of
           None \<Rightarrow> Inl Invalid_memory
         | Some d \<Rightarrow> copy_parent_params copy old is (new[i := Some (copy d)]))
      else Inl Invalid_memory)"

text \<open>
  One of the two blocks of \<^verbatim>\<open>ncm_model_class_add_params\<close> that (re)build a descriptor
  array: \<open>copy\<close> is the copy function of the entries, \<open>len\<close> the new count, \<open>parent_len\<close>
  the count before the call, \<open>arr\<close> the array pointer before the call.
  \<^verbatim>\<open>g_ptr_array_set_size\<close> fills the new array with null pointers.
\<close>

definition grow_params ::
  "('a \<Rightarrow> 'a) \<Rightarrow> guint \<Rightarrow> guint \<Rightarrow> 'a option list option \<Rightarrow> fatal + 'a option list option" where
  "grow_params copy len parent_len arr =
     (if len > 0 then
        (case arr of
           None \<Rightarrow> Inr (Some (replicate (unat len) None))
         | Some old \<Rightarrow>
             (case copy_parent_params copy old (guint_range parent_len) (replicate (unat len) None) of
                Inl e \<Rightarrow> Inl e
              | Inr new \<Rightarrow> Inr (Some new)))
      else Inr arr)"

text \<open>
  \<^verbatim>\<open>ncm_model_class_add_params\<close>. The two assignments to \<^verbatim>\<open>object_class->set_property\<close> and
  \<^verbatim>\<open>object_class->get_property\<close> install the two generic functions modelled further down
  for every class that calls it; they are the same for all classes and carry no state.
\<close>

definition ncm_model_class_add_params ::
  "NcmModelClass \<Rightarrow> guint \<Rightarrow> guint \<Rightarrow> guint \<Rightarrow> fatal + NcmModelClass" where
  "ncm_model_class_add_params model_class sparam_len vparam_len nonparam_prop_len =
     (let c = model_class
            \<lparr>class_parent_sparam_len := class_sparam_len model_class,
             class_parent_vparam_len := class_vparam_len model_class,
             class_sparam_len := class_sparam_len model_class + sparam_len,
             class_vparam_len := class_vparam_len model_class + vparam_len,
             class_nonparam_prop_len := nonparam_prop_len\<rparr>
      in case grow_params ncm_sparam_copy (class_sparam_len c) (class_parent_sparam_len c)
                (class_sparam c) of
           Inl e \<Rightarrow> Inl e
         | Inr sparam \<Rightarrow>
             (case grow_params ncm_vparam_copy (class_vparam_len c) (class_parent_vparam_len c)
                     (class_vparam c) of
                Inl e \<Rightarrow> Inl e
              | Inr vparam \<Rightarrow> Inr (c\<lparr>class_sparam := sparam, class_vparam := vparam\<rparr>)))"

text \<open>
  Modelled from the spec: \<^verbatim>\<open>ncm_sparam_new\<close> and \<^verbatim>\<open>ncm_vparam_full_new\<close> (their files are
  missing) build a descriptor from their arguments, in the order of their calls in
  \<^verbatim>\<open>ncm_model_class_set_sparam\<close> and \<^verbatim>\<open>ncm_model_class_set_vparam\<close>.
\<close>

definition ncm_sparam_new ::
  "string \<Rightarrow> string \<Rightarrow> gdouble \<Rightarrow> gdouble \<Rightarrow> gdouble \<Rightarrow> gdouble \<Rightarrow> gdouble \<Rightarrow> NcmParamType \<Rightarrow> NcmSParam" where
  "ncm_sparam_new name symbol lower_bound upper_bound scale abstol default_value ppt =
     \<lparr>sparam_name = name, sparam_symbol = symbol,
      sparam_lower_bound = lower_bound, sparam_upper_bound = upper_bound,
      sparam_scale = scale, sparam_abstol = abstol,
      sparam_default_value = default_value, sparam_ftype = ppt\<rparr>"

definition ncm_vparam_full_new ::
  "guint \<Rightarrow> string \<Rightarrow> string \<Rightarrow> gdouble \<Rightarrow> gdouble \<Rightarrow> gdouble \<Rightarrow> gdouble \<Rightarrow> gdouble \<Rightarrow> NcmParamType \<Rightarrow> NcmVParam" where
  "ncm_vparam_full_new default_length name symbol lower_bound upper_bound scale abstol default_value ppt =
     \<lparr>vparam_length = default_length,
      vparam_default_sparam =
        ncm_sparam_new name symbol lower_bound upper_bound scale abstol default_value ppt\<rparr>"

text \<open>
  The property ids that \<^verbatim>\<open>ncm_model_class_set_sparam\<close> computes for the value and for the
  fit flag of scalar slot \<open>sparam_id\<close> (the locals \<^verbatim>\<open>prop_id\<close> and \<^verbatim>\<open>prop_fit_id\<close>).
\<close>

definition sparam_prop_id :: "NcmModelClass \<Rightarrow> guint \<Rightarrow> guint" where
  "sparam_prop_id model_class sparam_id =
     sparam_id - class_parent_sparam_len model_class + class_nonparam_prop_len model_class"

definition sparam_prop_fit_id :: "NcmModelClass \<Rightarrow> guint \<Rightarrow> guint" where
  "sparam_prop_fit_id model_class sparam_id =
     sparam_prop_id model_class sparam_id
       + (class_sparam_len model_class - class_parent_sparam_len model_class)
       + 2 * (class_vparam_len model_class - class_parent_vparam_len model_class)"

text \<open>
  \<^verbatim>\<open>ncm_model_class_set_sparam\<close>. The order is the source's: the assertion on \<^verbatim>\<open>prop_id\<close>,
  then the test of the slot, then the store. The two calls of
  \<^verbatim>\<open>g_object_class_install_property\<close> that follow register the ids above with GObject and do
  not change the class structure.
\<close>

definition ncm_model_class_set_sparam ::
  "NcmModelClass \<Rightarrow> guint \<Rightarrow> string \<Rightarrow> string \<Rightarrow> gdouble \<Rightarrow> gdouble \<Rightarrow> gdouble \<Rightarrow> gdouble \<Rightarrow> gdouble
     \<Rightarrow> NcmParamType \<Rightarrow> fatal + NcmModelClass" where
  "ncm_model_class_set_sparam model_class sparam_id symbol name lower_bound upper_bound scale abstol
       default_value ppt =
     (let prop_id = sparam_prop_id model_class sparam_id;
          sparam = ncm_sparam_new name symbol lower_bound upper_bound scale abstol default_value ppt
      in if \<not> prop_id > 0 then Inl Assert_failed
         else (case class_sparam model_class of
                 None \<Rightarrow> Inl Invalid_memory
               | Some arr \<Rightarrow>
                   if \<not> unat sparam_id < length arr then Inl Invalid_memory
                   else if arr ! unat sparam_id \<noteq> None then Inl (Error_sparam_already_set sparam_id)
                   else Inr (model_class\<lparr>class_sparam := Some (arr[unat sparam_id := Some sparam])\<rparr>)))"

text \<open>The ids computed by \<^verbatim>\<open>ncm_model_class_set_vparam\<close>: value, length and fit flags.\<close>

definition vparam_prop_id :: "NcmModelClass \<Rightarrow> guint \<Rightarrow> guint" where
  "vparam_prop_id model_class vparam_id =
     vparam_id + class_nonparam_prop_len model_class - class_parent_vparam_len model_class
       + (class_sparam_len model_class - class_parent_sparam_len model_class)"

definition vparam_prop_len_id :: "NcmModelClass \<Rightarrow> guint \<Rightarrow> guint" where
  "vparam_prop_len_id model_class vparam_id =
     vparam_prop_id model_class vparam_id
       + (class_vparam_len model_class - class_parent_vparam_len model_class)"

definition vparam_prop_fit_id :: "NcmModelClass \<Rightarrow> guint \<Rightarrow> guint" where
  "vparam_prop_fit_id model_class vparam_id =
     vparam_prop_len_id model_class vparam_id
       + (class_vparam_len model_class - class_parent_vparam_len model_class)
       + (class_sparam_len model_class - class_parent_sparam_len model_class)"

definition ncm_model_class_set_vparam ::
  "NcmModelClass \<Rightarrow> guint \<Rightarrow> guint \<Rightarrow> string \<Rightarrow> string \<Rightarrow> gdouble \<Rightarrow> gdouble \<Rightarrow> gdouble \<Rightarrow> gdouble
     \<Rightarrow> gdouble \<Rightarrow> NcmParamType \<Rightarrow> fatal + NcmModelClass" where
  "ncm_model_class_set_vparam model_class vparam_id default_length symbol name lower_bound upper_bound
       scale abstol default_value ppt =
     (let prop_id = vparam_prop_id model_class vparam_id;
          prop_len_id = vparam_prop_len_id model_class vparam_id;
          vparam = ncm_vparam_full_new default_length name symbol lower_bound upper_bound scale abstol
                     default_value ppt
      in if \<not> prop_id > 0 then Inl Assert_failed
         else if \<not> prop_len_id > 0 then Inl Assert_failed
         else (case class_vparam model_class of
                 None \<Rightarrow> Inl Invalid_memory
               | Some arr \<Rightarrow>
                   if \<not> unat vparam_id < length arr then Inl Invalid_memory
                   else if arr ! unat vparam_id \<noteq> None then Inl (Error_vparam_already_set vparam_id)
                   else Inr (model_class\<lparr>class_vparam := Some (arr[unat vparam_id := Some vparam])\<rparr>)))"

section \<open>Resolution of property ids\<close>

text \<open>
  \<^verbatim>\<open>_ncm_model_class_get_property\<close> and \<^verbatim>\<open>_ncm_model_class_set_property\<close> compute the same five
  candidate indices from \<^verbatim>\<open>prop_id\<close> and go through the same chain of tests; they differ in
  the handler tested in the first branch and in what each branch then does with the
  instance (read or write through the accessor of that kind of slot). The model returns
  the branch taken together with the index it hands to the accessor.
\<close>

datatype prop_access =
    Class_property guint
  | Sparam_value guint
  | Vparam_value guint
  | Vparam_length guint
  | Sparam_fit guint
  | Vparam_fit guint

definition ncm_model_class_get_property :: "NcmModelClass \<Rightarrow> guint \<Rightarrow> fatal + prop_access" where
  "ncm_model_class_get_property model_class prop_id =
     (let sparam_id = prop_id - class_nonparam_prop_len model_class + class_parent_sparam_len model_class;
          vparam_id = sparam_id - class_sparam_len model_class + class_parent_vparam_len model_class;
          vparam_len_id = vparam_id - class_vparam_len model_class + class_parent_vparam_len model_class;
          sparam_fit_id = vparam_len_id - class_vparam_len model_class + class_parent_sparam_len model_class;
          vparam_fit_id = sparam_fit_id - class_sparam_len model_class + class_parent_vparam_len model_class
      in if prop_id < class_nonparam_prop_len model_class \<and> class_get_property model_class
           then Inr (Class_property prop_id)
         else if sparam_id < class_sparam_len model_class then Inr (Sparam_value sparam_id)
         else if vparam_id < class_vparam_len model_class then Inr (Vparam_value vparam_id)
         else if vparam_len_id < class_vparam_len model_class then Inr (Vparam_length vparam_len_id)
         else if sparam_fit_id < class_sparam_len model_class then Inr (Sparam_fit sparam_fit_id)
         else if vparam_fit_id < class_vparam_len model_class then Inr (Vparam_fit vparam_fit_id)
         else Inl Assert_not_reached)"

definition ncm_model_class_set_property :: "NcmModelClass \<Rightarrow> guint \<Rightarrow> fatal + prop_access" where
  "ncm_model_class_set_property model_class prop_id =
     (let sparam_id = prop_id - class_nonparam_prop_len model_class + class_parent_sparam_len model_class;
          vparam_id = sparam_id - class_sparam_len model_class + class_parent_vparam_len model_class;
          vparam_len_id = vparam_id - class_vparam_len model_class + class_parent_vparam_len model_class;
          sparam_fit_id = vparam_len_id - class_vparam_len model_class + class_parent_sparam_len model_class;
          vparam_fit_id = sparam_fit_id - class_sparam_len model_class + class_parent_vparam_len model_class
      in if prop_id < class_nonparam_prop_len model_class \<and> class_set_property model_class
           then Inr (Class_property prop_id)
         else if sparam_id < class_sparam_len model_class then Inr (Sparam_value sparam_id)
         else if vparam_id < class_vparam_len model_class then Inr (Vparam_value vparam_id)
         else if vparam_len_id < class_vparam_len model_class then Inr (Vparam_length vparam_len_id)
         else if sparam_fit_id < class_sparam_len model_class then Inr (Sparam_fit sparam_fit_id)
         else if vparam_fit_id < class_vparam_len model_class then Inr (Vparam_fit vparam_fit_id)
         else Inl Assert_not_reached)"

text \<open>
  The layout in the specification's words, over natural numbers: an id below the nonparam
  count belongs to the level's own handler; otherwise the nonparam count is subtracted and
  the offset is looked for in five consecutive regions, sized by the level's own scalar
  count, own vector count, own vector count, own scalar count and own vector count. The
  index inside a region is counted from the parent's count of that kind. \<open>None\<close>: the id
  lies in none of the regions of this level.
\<close>

definition own_sparam_len :: "NcmModelClass \<Rightarrow> nat" where
  "own_sparam_len model_class =
     unat (class_sparam_len model_class) - unat (class_parent_sparam_len model_class)"

definition own_vparam_len :: "NcmModelClass \<Rightarrow> nat" where
  "own_vparam_len model_class =
     unat (class_vparam_len model_class) - unat (class_parent_vparam_len model_class)"

definition property_layout :: "NcmModelClass \<Rightarrow> guint \<Rightarrow> prop_access option" where
  "property_layout model_class prop_id =
     (let s = own_sparam_len model_class;
          v = own_vparam_len model_class;
          ps = unat (class_parent_sparam_len model_class);
          pv = unat (class_parent_vparam_len model_class);
          k = unat prop_id - unat (class_nonparam_prop_len model_class)
      in if prop_id < class_nonparam_prop_len model_class then Some (Class_property prop_id)
         else if k < s then Some (Sparam_value (of_nat (ps + k)))
         else if k < s + v then Some (Vparam_value (of_nat (pv + (k - s))))
         else if k < s + v + v then Some (Vparam_length (of_nat (pv + (k - s - v))))
         else if k < s + v + v + s then Some (Sparam_fit (of_nat (ps + (k - s - v - v))))
         else if k < s + v + v + s + v then Some (Vparam_fit (of_nat (pv + (k - s - v - v - s))))
         else None)"

text \<open>What a resolution function returns when it follows the layout.\<close>

definition follows_layout :: "NcmModelClass \<Rightarrow> guint \<Rightarrow> fatal + prop_access" where
  "follows_layout model_class prop_id =
     (case property_layout model_class prop_id of
        Some a \<Rightarrow> Inr a
      | None \<Rightarrow> Inl Assert_not_reached)"

section \<open>Vectors in the store\<close>

text \<open>
  Modelled from the spec: the numeric vector container (\<^verbatim>\<open>ncm_vector.c\<close> and its header are
  missing) offers create, get, set and length. A new vector is zero-filled and lives at an
  address not used before. Reading or writing outside a vector is an invalid access.
  Address \<open>0\<close> stands for the null pointer; \<open>store_next\<close> starts above it.
\<close>

definition ncm_vector_new :: "store \<Rightarrow> nat \<Rightarrow> addr \<times> store" where
  "ncm_vector_new s n =
     (store_next s,
      s\<lparr>store_vec := (store_vec s)(store_next s := replicate n 0),
        store_next := Suc (store_next s)\<rparr>)"

definition ncm_vector_get :: "store \<Rightarrow> addr \<Rightarrow> nat \<Rightarrow> fatal + gdouble" where
  "ncm_vector_get s v i =
     (if i < length (store_vec s v) then Inr (store_vec s v ! i) else Inl Invalid_memory)"

definition ncm_vector_set :: "store \<Rightarrow> addr \<Rightarrow> nat \<Rightarrow> gdouble \<Rightarrow> fatal + store" where
  "ncm_vector_set s v i val =
     (if i < length (store_vec s v)
      then Inr (s\<lparr>store_vec := (store_vec s)(v := (store_vec s v)[i := val])\<rparr>)
      else Inl Invalid_memory)"

section \<open>Reparametrization, as the model calls it\<close>

text \<open>
  Modelled from the spec: \<^verbatim>\<open>ncm_reparam_old2new (reparam, model, src, dest)\<close> (in the missing
  \<^verbatim>\<open>ncm_reparam.c\<close>) is the forward map of the transform. Attaching a transform whose domain
  length differs from the instance's \<^verbatim>\<open>total_len\<close> is a fatal precondition violation of this
  interface: the call stops the program. Otherwise it applies the forward map to the vector
  \<open>src\<close> and leaves the result in the vector \<open>dest\<close>; it writes nowhere else.
\<close>

definition ncm_reparam_old2new ::
  "NcmReparam \<Rightarrow> NcmModel \<Rightarrow> store \<Rightarrow> addr \<Rightarrow> addr \<Rightarrow> fatal + store" where
  "ncm_reparam_old2new reparam model s src dest =
     (if reparam_length reparam \<noteq> model_total_len model then Inl Assert_failed
      else (case reparam_old2new reparam (store_vec s src) of
              Inl e \<Rightarrow> Inl e
            | Inr v \<Rightarrow> Inr (s\<lparr>store_vec := (store_vec s)(dest := v)\<rparr>)))"

text \<open>
  Modelled from the spec: \<^verbatim>\<open>ncm_reparam_new2old\<close> (in the missing \<^verbatim>\<open>ncm_reparam.c\<close>) is the
  backward map, from the transform's vector to the model's original vector.
\<close>

definition ncm_reparam_new2old :: "NcmReparam \<Rightarrow> store \<Rightarrow> addr \<Rightarrow> addr \<Rightarrow> fatal + store" where
  "ncm_reparam_new2old reparam s src dest =
     (case reparam_new2old reparam (store_vec s src) of
        Inl e \<Rightarrow> Inl e
      | Inr v \<Rightarrow> Inr (s\<lparr>store_vec := (store_vec s)(dest := v)\<rparr>))"

text \<open>
  Modelled from the spec: \<^verbatim>\<open>ncm_reparam_index_from_name\<close> looks a name up in the
  transform's own table of renamed slots, and \<^verbatim>\<open>ncm_reparam_peek_param_desc\<close> returns the
  descriptor the transform gives to a slot, or null when it does not rename that slot.
  A failed lookup leaves \<open>-1\<close> in the index, as the model's own lookup does.
\<close>

definition ncm_reparam_index_from_name :: "NcmReparam \<Rightarrow> string \<Rightarrow> bool \<times> guint" where
  "ncm_reparam_index_from_name reparam param_name =
     (case reparam_sparams_name_id reparam param_name of
        Some param_id \<Rightarrow> (True, param_id)
      | None \<Rightarrow> (False, - 1))"

definition ncm_reparam_peek_param_desc :: "NcmReparam \<Rightarrow> guint \<Rightarrow> NcmSParam option" where
  "ncm_reparam_peek_param_desc reparam i = reparam_sparams reparam i"

section \<open>Instances\<close>

text \<open>
  \<^verbatim>\<open>ncm_model_init\<close>, the instance initialiser of \<^verbatim>\<open>NcmModel\<close>. The run-time type of the
  object is a parameter. While GObject runs the initialiser of \<^verbatim>\<open>NcmModel\<close>, the class
  pointer of the instance is the class of \<^verbatim>\<open>NcmModel\<close> itself, whatever the concrete type
  of the object: \<^verbatim>\<open>NCM_MODEL_GET_CLASS (model)\<close> is the class structure that
  \<^verbatim>\<open>ncm_model_class_init\<close> leaves, and its vector count is 0. So the two arrays
  \<^verbatim>\<open>vparam_len\<close> and \<^verbatim>\<open>vparam_pos\<close> are created with length 0 for every instance.
  \<^verbatim>\<open>total_len\<close> is not assigned here; the instance structure is zero-filled when GObject
  allocates it. The two keys \<^verbatim>\<open>pkey\<close> and \<^verbatim>\<open>skey\<close>, which only record that parameters
  changed, are not modelled. After \<^verbatim>\<open>ncm_model_init\<close> GObject sets the construct properties
  and then calls \<^verbatim>\<open>_ncm_model_constructed\<close>. The construct property for the length of a
  vector parameter is stored with \<^verbatim>\<open>g_array_index\<close> into \<^verbatim>\<open>model->vparam_len\<close>, at an index
  that is not below the length of that array: the array keeps its length and its entries.
\<close>

definition ncm_model_init :: "GType \<Rightarrow> NcmModel" where
  "ncm_model_init gtype =
     (let model_class = ncm_model_class_init
      in \<lparr>model_type = gtype,
          model_sparams = [],
          model_sparams_name_id = Map.empty,
          model_params = 0,
          model_p = 0,
          model_vparam_len = replicate (unat (class_vparam_len model_class)) 0,
          model_vparam_pos = replicate (unat (class_vparam_len model_class)) 0,
          model_total_len = 0,
          model_reparam = None,
          model_ptypes = []\<rparr>)"

text \<open>
  \<^verbatim>\<open>g_array_set_size\<close> and \<^verbatim>\<open>g_ptr_array_set_size\<close>: the array is cut or extended to the
  given length; \<open>z\<close> is what new entries hold (zero bytes, a null pointer).
\<close>

definition g_array_set_size :: "'a \<Rightarrow> 'a list \<Rightarrow> nat \<Rightarrow> 'a list" where
  "g_array_set_size z xs n = take n xs @ replicate (n - length xs) z"

text \<open>
  The first loop of \<^verbatim>\<open>_ncm_model_set_sparams\<close>, over the scalar slots of the class. The
  descriptor is read through the class array and copied (a null array, an index outside it
  and a null entry are invalid accesses), the fit type is set to fixed, and the name is
  entered into the name table.
\<close>

fun set_sparams_scalars :: "NcmModelClass \<Rightarrow> nat list \<Rightarrow> NcmModel \<Rightarrow> fatal + NcmModel" where
  "set_sparams_scalars model_class [] model = Inr model"
| "set_sparams_scalars model_class (i # is) model =
     (case class_sparam model_class of
        None \<Rightarrow> Inl Invalid_memory
      | Some arr \<Rightarrow>
          if \<not> i < length arr then Inl Invalid_memory
          else (case arr ! i of
                  None \<Rightarrow> Inl Invalid_memory
                | Some sp \<Rightarrow>
                    if \<not> i < length (model_ptypes model) \<or> \<not> i < length (model_sparams model)
                      then Inl Invalid_memory
                    else set_sparams_scalars model_class is
                           (model\<lparr>model_ptypes := (model_ptypes model)[i := NCM_PARAM_TYPE_FIXED],
                                  model_sparams := (model_sparams model)[i := Some (ncm_sparam_copy sp)],
                                  model_sparams_name_id :=
                                    (model_sparams_name_id model)(sparam_name sp \<mapsto> of_nat i)\<rparr>)))"

text \<open>
  Modelled from the spec: \<^verbatim>\<open>ncm_vparam_set_len\<close> and \<^verbatim>\<open>ncm_vparam_peek_sparam\<close> (in the
  missing \<^verbatim>\<open>ncm_vparam.c\<close>) expand a vector parameter into as many independent copies of
  its descriptor as its length; the spec does not say how the copies are named, and here
  each keeps the name of the template.
\<close>

definition ncm_vparam_set_len :: "NcmVParam \<Rightarrow> guint \<Rightarrow> NcmVParam" where
  "ncm_vparam_set_len vp len = vp\<lparr>vparam_length := len\<rparr>"

definition ncm_vparam_peek_sparam :: "NcmVParam \<Rightarrow> nat \<Rightarrow> NcmSParam" where
  "ncm_vparam_peek_sparam vp j = vparam_default_sparam vp"

text \<open>
  The inner loop of \<^verbatim>\<open>_ncm_model_set_sparams\<close> over the components \<open>j\<close> of one vector
  parameter at position \<open>pos\<close>; the slot index \<^verbatim>\<open>n = pos + j\<close> is a \<^verbatim>\<open>guint\<close> sum.
\<close>

fun set_sparams_components :: "NcmVParam \<Rightarrow> guint \<Rightarrow> nat list \<Rightarrow> NcmModel \<Rightarrow> fatal + NcmModel" where
  "set_sparams_components vp pos [] model = Inr model"
| "set_sparams_components vp pos (j # js) model =
     (let n = pos + of_nat j;
          sp = ncm_vparam_peek_sparam vp j
      in if \<not> unat n < length (model_ptypes model) \<or> \<not> unat n < length (model_sparams model)
           then Inl Invalid_memory
         else set_sparams_components vp pos js
                (model\<lparr>model_ptypes := (model_ptypes model)[unat n := NCM_PARAM_TYPE_FIXED],
                       model_sparams := (model_sparams model)[unat n := Some sp],
                       model_sparams_name_id := (model_sparams_name_id model)(sparam_name sp \<mapsto> n)\<rparr>))"

text \<open>The second loop of \<^verbatim>\<open>_ncm_model_set_sparams\<close>, over the vector parameters of the class.\<close>

fun set_sparams_vectors :: "NcmModelClass \<Rightarrow> nat list \<Rightarrow> NcmModel \<Rightarrow> fatal + NcmModel" where
  "set_sparams_vectors model_class [] model = Inr model"
| "set_sparams_vectors model_class (i # is) model =
     (if \<not> i < length (model_vparam_len model) \<or> \<not> i < length (model_vparam_pos model)
        then Inl Invalid_memory
      else
        (let len = model_vparam_len model ! i;
             pos = model_vparam_pos model ! i
         in case class_vparam model_class of
              None \<Rightarrow> Inl Invalid_memory
            | Some arr \<Rightarrow>
                if \<not> i < length arr then Inl Invalid_memory
                else (case arr ! i of
                        None \<Rightarrow> Inl Invalid_memory
                      | Some vp0 \<Rightarrow>
                          (case set_sparams_components (ncm_vparam_set_len (ncm_vparam_copy vp0) len)
                                  pos (guint_range len) model of
                             Inl e \<Rightarrow> Inl e
                           | Inr model' \<Rightarrow> set_sparams_vectors model_class is model'))))"

definition ncm_model_set_sparams :: "NcmModelClass \<Rightarrow> NcmModel \<Rightarrow> fatal + NcmModel" where
  "ncm_model_set_sparams model_class model =
     (let model0 = model\<lparr>model_sparams_name_id := Map.empty,
                         model_sparams := g_array_set_size None [] (unat (model_total_len model))\<rparr>
      in case set_sparams_scalars model_class (guint_range (class_sparam_len model_class)) model0 of
           Inl e \<Rightarrow> Inl e
         | Inr model1 \<Rightarrow>
             set_sparams_vectors model_class (guint_range (class_vparam_len model_class)) model1)"

text \<open>
  Modelled from the spec: the accessors that \<^verbatim>\<open>ncm_model.h\<close> (missing) defines inline.
  \<^verbatim>\<open>ncm_model_param_peek_desc\<close> gives the descriptor of a slot of the working space: the
  one of the active transform where it renames the slot, the instance's own otherwise.
  \<^verbatim>\<open>ncm_model_param_get\<close> reads the working vector \<^verbatim>\<open>model->p\<close>, \<^verbatim>\<open>ncm_model_orig_param_get\<close>
  the original vector \<^verbatim>\<open>model->params\<close>. \<^verbatim>\<open>ncm_model_params_update\<close> is documented in
  \<^verbatim>\<open>ncm_model.c\<close> as updating the original parameters if necessary: with an active
  transform it maps the working vector back to the original one.
\<close>

definition ncm_model_param_peek_desc :: "NcmModel \<Rightarrow> guint \<Rightarrow> fatal + NcmSParam" where
  "ncm_model_param_peek_desc model n =
     (case (case model_reparam model of
              None \<Rightarrow> None
            | Some reparam \<Rightarrow> ncm_reparam_peek_param_desc reparam n) of
        Some sp \<Rightarrow> Inr sp
      | None \<Rightarrow>
          if \<not> unat n < length (model_sparams model) then Inl Invalid_memory
          else (case model_sparams model ! unat n of
                  None \<Rightarrow> Inl Invalid_memory
                | Some sp \<Rightarrow> Inr sp))"

definition ncm_model_param_get :: "store \<Rightarrow> NcmModel \<Rightarrow> guint \<Rightarrow> fatal + gdouble" where
  "ncm_model_param_get s model n = ncm_vector_get s (model_p model) (unat n)"

definition ncm_model_orig_param_get :: "store \<Rightarrow> NcmModel \<Rightarrow> guint \<Rightarrow> fatal + gdouble" where
  "ncm_model_orig_param_get s model n = ncm_vector_get s (model_params model) (unat n)"

definition ncm_model_params_update :: "store \<Rightarrow> NcmModel \<Rightarrow> fatal + store" where
  "ncm_model_params_update s model =
     (case model_reparam model of
        None \<Rightarrow> Inr s
      | Some reparam \<Rightarrow>
          ncm_reparam_new2old reparam s (reparam_new_params reparam) (model_params model))"

text \<open>The loop of \<^verbatim>\<open>ncm_model_params_set_default\<close>.\<close>

fun params_set_default_loop :: "NcmModel \<Rightarrow> nat list \<Rightarrow> store \<Rightarrow> fatal + store" where
  "params_set_default_loop model [] s = Inr s"
| "params_set_default_loop model (i # is) s =
     (case ncm_model_param_peek_desc model (of_nat i) of
        Inl e \<Rightarrow> Inl e
      | Inr desc \<Rightarrow>
          (case ncm_vector_set s (model_p model) i (sparam_default_value desc) of
             Inl e \<Rightarrow> Inl e
           | Inr s' \<Rightarrow> params_set_default_loop model is s'))"

definition ncm_model_params_set_default :: "store \<Rightarrow> NcmModel \<Rightarrow> fatal + store" where
  "ncm_model_params_set_default s model =
     (case params_set_default_loop model (guint_range (model_total_len model)) s of
        Inl e \<Rightarrow> Inl e
      | Inr s' \<Rightarrow> ncm_model_params_update s' model)"

text \<open>
  The loop of \<^verbatim>\<open>_ncm_model_constructed\<close>: the position of vector parameter \<open>i\<close> is the
  running total, which then grows by the length of that vector parameter.
\<close>

fun constructed_loop :: "nat list \<Rightarrow> NcmModel \<Rightarrow> fatal + NcmModel" where
  "constructed_loop [] model = Inr model"
| "constructed_loop (i # is) model =
     (if \<not> i < length (model_vparam_pos model) \<or> \<not> i < length (model_vparam_len model)
        then Inl Invalid_memory
      else constructed_loop is
             (model\<lparr>model_vparam_pos := (model_vparam_pos model)[i := model_total_len model],
                    model_total_len := model_total_len model + model_vparam_len model ! i\<rparr>))"

text \<open>
  \<^verbatim>\<open>_ncm_model_constructed\<close>. New entries of \<^verbatim>\<open>ptypes\<close> are zero bytes, the first value of
  the enumeration; \<^verbatim>\<open>_ncm_model_set_sparams\<close> then writes every entry it reaches.
\<close>

definition ncm_model_constructed :: "NcmModelClass \<Rightarrow> store \<Rightarrow> NcmModel \<Rightarrow> fatal + NcmModel \<times> store" where
  "ncm_model_constructed model_class s model =
     (case constructed_loop (guint_range (class_vparam_len model_class))
             (model\<lparr>model_total_len := class_sparam_len model_class\<rparr>) of
        Inl e \<Rightarrow> Inl e
      | Inr model1 \<Rightarrow>
          (let (v, s1) = ncm_vector_new s (unat (model_total_len model1));
               model2 = model1\<lparr>model_params := v, model_p := v,
                               model_ptypes := g_array_set_size NCM_PARAM_TYPE_FREE
                                                 (model_ptypes model1) (unat (model_total_len model1))\<rparr>
           in case ncm_model_set_sparams model_class model2 of
                Inl e \<Rightarrow> Inl e
              | Inr model3 \<Rightarrow>
                  (case ncm_model_params_set_default s1 model3 of
                     Inl e \<Rightarrow> Inl e
                   | Inr s2 \<Rightarrow> Inr (model3, s2))))"

section \<open>Attaching and detaching a reparametrization\<close>

definition ncm_model_sparams_remove_reparam :: "NcmModel \<Rightarrow> NcmModel" where
  "ncm_model_sparams_remove_reparam model =
     (if model_reparam model \<noteq> None
      then model\<lparr>model_reparam := None, model_p := model_params model\<rparr>
      else model)"

text \<open>
  \<^verbatim>\<open>ncm_model_set_reparam\<close>. \<open>None\<close> is the null pointer. The function itself tests nothing
  but the pointer: the transform is stored, the working vector becomes the transform's
  \<^verbatim>\<open>new_params\<close>, and \<^verbatim>\<open>ncm_reparam_old2new\<close> is called on the instance, from
  \<^verbatim>\<open>model->params\<close> into that vector.
\<close>

definition ncm_model_set_reparam ::
  "store \<Rightarrow> NcmModel \<Rightarrow> NcmReparam option \<Rightarrow> fatal + NcmModel \<times> store" where
  "ncm_model_set_reparam s model reparam =
     (case reparam of
        Some r \<Rightarrow>
          (let model' = model\<lparr>model_reparam := Some r, model_p := reparam_new_params r\<rparr>
           in case ncm_reparam_old2new r model' s (model_params model') (reparam_new_params r) of
                Inl e \<Rightarrow> Inl e
              | Inr s' \<Rightarrow> Inr (model', s'))
      | None \<Rightarrow> Inr (ncm_model_sparams_remove_reparam model, s))"

section \<open>Looking a slot up by name\<close>

definition ncm_model_orig_param_index_from_name :: "NcmModel \<Rightarrow> string \<Rightarrow> bool \<times> guint" where
  "ncm_model_orig_param_index_from_name model param_name =
     (case model_sparams_name_id model param_name of
        Some param_id \<Rightarrow> (True, param_id)
      | None \<Rightarrow> (False, - 1))"

text \<open>
  Modelled from the spec: \<^verbatim>\<open>ncm_model_peek_reparam\<close> (defined inline in the missing
  \<^verbatim>\<open>ncm_model.h\<close>) returns the active transform, or null.
\<close>

definition ncm_model_peek_reparam :: "NcmModel \<Rightarrow> NcmReparam option" where
  "ncm_model_peek_reparam model = model_reparam model"

text \<open>
  \<^verbatim>\<open>ncm_model_param_index_from_name\<close>: the result is the returned flag together with the
  index left in \<^verbatim>\<open>*i\<close>, or the \<^verbatim>\<open>g_error\<close> that ends the program.
\<close>

definition ncm_model_param_index_from_name :: "NcmModel \<Rightarrow> string \<Rightarrow> fatal + bool \<times> guint" where
  "ncm_model_param_index_from_name model param_name =
     (case ncm_model_peek_reparam model of
        Some reparam \<Rightarrow>
          (case ncm_reparam_index_from_name reparam param_name of
             (True, i) \<Rightarrow> Inr (True, i)
           | (False, _) \<Rightarrow>
               (case ncm_model_orig_param_index_from_name model param_name of
                  (True, i) \<Rightarrow>
                    if ncm_reparam_peek_param_desc reparam i \<noteq> None
                      then Inl (Error_param_changed_by_reparam param_name)
                    else Inr (True, i)
                | (False, i) \<Rightarrow> Inr (False, i)))
      | None \<Rightarrow> Inr (ncm_model_orig_param_index_from_name model param_name))"

section \<open>The bounds check\<close>

definition ncm_model_param_get_lower_bound :: "NcmModel \<Rightarrow> guint \<Rightarrow> fatal + gdouble" where
  "ncm_model_param_get_lower_bound model n =
     (case ncm_model_param_peek_desc model n of
        Inl e \<Rightarrow> Inl e
      | Inr desc \<Rightarrow> Inr (sparam_lower_bound desc))"

definition ncm_model_param_get_upper_bound :: "NcmModel \<Rightarrow> guint \<Rightarrow> fatal + gdouble" where
  "ncm_model_param_get_upper_bound model n =
     (case ncm_model_param_peek_desc model n of
        Inl e \<Rightarrow> Inl e
      | Inr desc \<Rightarrow> Inr (sparam_upper_bound desc))"

text \<open>
  The loop of \<^verbatim>\<open>ncm_model_params_valid_bounds\<close>. Both \<^verbatim>\<open>lb\<close> and \<^verbatim>\<open>ub\<close> are read with
  \<^verbatim>\<open>ncm_model_param_get_lower_bound\<close>, and the value with \<^verbatim>\<open>ncm_model_param_get\<close>, as the
  source has it.
\<close>

fun valid_bounds_loop :: "store \<Rightarrow> NcmModel \<Rightarrow> nat list \<Rightarrow> fatal + bool" where
  "valid_bounds_loop s model [] = Inr True"
| "valid_bounds_loop s model (i # is) =
     (case ncm_model_param_get_lower_bound model (of_nat i) of
        Inl e \<Rightarrow> Inl e
      | Inr lb \<Rightarrow>
          (case ncm_model_param_get_lower_bound model (of_nat i) of
             Inl e \<Rightarrow> Inl e
           | Inr ub \<Rightarrow>
               (case ncm_model_param_get s model (of_nat i) of
                  Inl e \<Rightarrow> Inl e
                | Inr val \<Rightarrow>
                    if val < lb \<or> val > ub then Inr False
                    else valid_bounds_loop s model is)))"

definition ncm_model_params_valid_bounds :: "store \<Rightarrow> NcmModel \<Rightarrow> fatal + bool" where
  "ncm_model_params_valid_bounds s model =
     valid_bounds_loop s model (guint_range (model_total_len model))"

text \<open>
  The bounds check in the specification's words: every slot's original value lies between
  the slot's lower and upper bound.
\<close>

definition bounds_check :: "store \<Rightarrow> NcmModel \<Rightarrow> bool" where
  "bounds_check s model =
     list_all
       (\<lambda>i. case (ncm_model_param_peek_desc model (of_nat i),
                   ncm_model_orig_param_get s model (of_nat i)) of
               (Inr desc, Inr val) \<Rightarrow> sparam_lower_bound desc \<le> val \<and> val \<le> sparam_upper_bound desc
             | _ \<Rightarrow> False)
       (guint_range (model_total_len model))"

section \<open>Setting a matrix from a serialized value (\<^verbatim>\<open>ncm_matrix.c\<close>)\<close>

text \<open>
  A \<^verbatim>\<open>GVariant\<close>, as far as the code inspects one: a double, a boolean, a 32-bit integer, or
  an array, which carries the type string of its elements and its children.
\<close>

datatype GVariant =
    Variant_double gdouble
  | Variant_boolean bool
  | Variant_int32 int
  | Variant_array string "GVariant list"

fun g_variant_get_type_string :: "GVariant \<Rightarrow> string" where
  "g_variant_get_type_string (Variant_double _) = ''d''"
| "g_variant_get_type_string (Variant_boolean _) = ''b''"
| "g_variant_get_type_string (Variant_int32 _) = ''i''"
| "g_variant_get_type_string (Variant_array t _) = ''a'' @ t"

definition g_variant_is_of_type :: "GVariant \<Rightarrow> string \<Rightarrow> bool" where
  "g_variant_is_of_type var t = (g_variant_get_type_string var = t)"

text \<open>
  The GLib accessors check their arguments (a container, an index below the number of
  children, a child of the requested type); a failed check is \<open>Critical\<close>.
\<close>

fun g_variant_n_children :: "GVariant \<Rightarrow> fatal + nat" where
  "g_variant_n_children (Variant_array _ xs) = Inr (length xs)"
| "g_variant_n_children _ = Inl Critical"

fun g_variant_get_child_value :: "GVariant \<Rightarrow> nat \<Rightarrow> fatal + GVariant" where
  "g_variant_get_child_value (Variant_array _ xs) i =
     (if i < length xs then Inr (xs ! i) else Inl Critical)"
| "g_variant_get_child_value _ i = Inl Critical"

text \<open>\<^verbatim>\<open>g_variant_get_child (row, j, "d", &val)\<close>.\<close>

definition g_variant_get_child_double :: "GVariant \<Rightarrow> nat \<Rightarrow> fatal + gdouble" where
  "g_variant_get_child_double row j =
     (case g_variant_get_child_value row j of
        Inl e \<Rightarrow> Inl e
      | Inr (Variant_double val) \<Rightarrow> Inr val
      | Inr _ \<Rightarrow> Inl Critical)"

text \<open>
  \<^verbatim>\<open>NcmMatrix\<close>: the GSL view \<^verbatim>\<open>cm->mv\<close> with its two sizes, its row stride \<^verbatim>\<open>tda\<close> and the
  block of doubles it looks at. The tag \<^verbatim>\<open>cm->type\<close>, which only says how the block is
  released, is not modelled.
\<close>

record NcmMatrix =
  matrix_size1 :: nat
  matrix_size2 :: nat
  matrix_tda :: nat
  matrix_data :: "gdouble list"

text \<open>
  Modelled from the spec: \<^verbatim>\<open>ncm_matrix_nrows\<close>, \<^verbatim>\<open>ncm_matrix_ncols\<close> and \<^verbatim>\<open>ncm_matrix_set\<close>
  (defined in the missing \<^verbatim>\<open>ncm_matrix.h\<close>) read the two sizes and store one entry; an
  entry outside the matrix is an invalid access.
\<close>

definition ncm_matrix_nrows :: "NcmMatrix \<Rightarrow> nat" where
  "ncm_matrix_nrows cm = matrix_size1 cm"

definition ncm_matrix_ncols :: "NcmMatrix \<Rightarrow> nat" where
  "ncm_matrix_ncols cm = matrix_size2 cm"

definition ncm_matrix_set :: "NcmMatrix \<Rightarrow> nat \<Rightarrow> nat \<Rightarrow> gdouble \<Rightarrow> fatal + NcmMatrix" where
  "ncm_matrix_set cm i j val =
     (if i < matrix_size1 cm \<and> j < matrix_size2 cm \<and> i * matrix_tda cm + j < length (matrix_data cm)
      then Inr (cm\<lparr>matrix_data := (matrix_data cm)[i * matrix_tda cm + j := val]\<rparr>)
      else Inl Invalid_memory)"

text \<open>\<^verbatim>\<open>gsl_matrix_view_array (d, nrows, ncols)\<close> on a block \<open>d\<close>.\<close>

definition gsl_matrix_view_array :: "gdouble list \<Rightarrow> nat \<Rightarrow> nat \<Rightarrow> NcmMatrix" where
  "gsl_matrix_view_array d nrows ncols =
     \<lparr>matrix_size1 = nrows, matrix_size2 = ncols, matrix_tda = ncols, matrix_data = d\<rparr>"

text \<open>The inner loop of \<^verbatim>\<open>ncm_matrix_set_from_variant\<close>, over the columns \<open>j\<close> of row \<open>i\<close>.\<close>

fun set_from_variant_cols :: "GVariant \<Rightarrow> nat \<Rightarrow> nat list \<Rightarrow> NcmMatrix \<Rightarrow> fatal + NcmMatrix" where
  "set_from_variant_cols row i [] cm = Inr cm"
| "set_from_variant_cols row i (j # js) cm =
     (case g_variant_get_child_double row j of
        Inl e \<Rightarrow> Inl e
      | Inr val \<Rightarrow>
          (case ncm_matrix_set cm i j val of
             Inl e \<Rightarrow> Inl e
           | Inr cm' \<Rightarrow> set_from_variant_cols row i js cm'))"

text \<open>The outer loop, over the rows.\<close>

fun set_from_variant_rows :: "GVariant \<Rightarrow> nat list \<Rightarrow> nat list \<Rightarrow> NcmMatrix \<Rightarrow> fatal + NcmMatrix" where
  "set_from_variant_rows var [] cols cm = Inr cm"
| "set_from_variant_rows var (i # is) cols cm =
     (case g_variant_get_child_value var i of
        Inl e \<Rightarrow> Inl e
      | Inr row \<Rightarrow>
          (case set_from_variant_cols row i cols cm of
             Inl e \<Rightarrow> Inl e
           | Inr cm' \<Rightarrow> set_from_variant_rows var is cols cm'))"

text \<open>
  \<^verbatim>\<open>ncm_matrix_set_from_variant\<close>. The numbers of children are stored in \<^verbatim>\<open>guint\<close> locals.
  A matrix of size \<open>0 \<times> 0\<close> is one still being instantiated and gets a fresh block, whose
  contents are not initialised in C (zeros here; the loops overwrite every entry). Any
  other matrix must have exactly the dimensions of the variant, or \<^verbatim>\<open>g_error\<close> ends the
  program.
\<close>

definition ncm_matrix_set_from_variant :: "NcmMatrix \<Rightarrow> GVariant \<Rightarrow> fatal + NcmMatrix" where
  "ncm_matrix_set_from_variant cm var =
     (if \<not> g_variant_is_of_type var ''aad'' then Inl Error_variant_not_aad
      else
        (case g_variant_get_child_value var 0 of
           Inl e \<Rightarrow> Inl e
         | Inr row \<Rightarrow>
             (case g_variant_n_children var of
                Inl e \<Rightarrow> Inl e
              | Inr nr \<Rightarrow>
                  (case g_variant_n_children row of
                     Inl e \<Rightarrow> Inl e
                   | Inr nc \<Rightarrow>
                       (let nrows = (of_nat nr :: guint);
                            ncols = (of_nat nc :: guint)
                        in case
                             (if ncm_matrix_nrows cm = 0 \<and> ncm_matrix_ncols cm = 0
                                then Inr (gsl_matrix_view_array
                                            (replicate (unat nrows * unat ncols) 0)
                                            (unat nrows) (unat ncols))
                              else if unat nrows \<noteq> ncm_matrix_nrows cm \<or> unat ncols \<noteq> ncm_matrix_ncols cm
                                then Inl (Error_matrix_dimension nrows ncols
                                            (ncm_matrix_nrows cm) (ncm_matrix_ncols cm))
                              else Inr cm) of
                             Inl e \<Rightarrow> Inl e
                           | Inr cm' \<Rightarrow>
                               set_from_variant_rows var (guint_range nrows) (guint_range ncols) cm')))))"

section \<open>Setting up a class hierarchy\<close>

text \<open>
  GObject initialises a class by running the class initialisers from the root down, each
  on the class structure that starts as a copy of the parent's. Every initialiser calls the
  registration functions above. Flattened, the set-up of a class at any depth is a
  sequence of such calls applied in order to the state left by \<^verbatim>\<open>ncm_model_class_init\<close>;
  the first fatal call ends it.
\<close>

datatype class_call =
    Add_params guint guint guint
  | Set_sparam guint string string gdouble gdouble gdouble gdouble gdouble NcmParamType
  | Set_vparam guint guint string string gdouble gdouble gdouble gdouble gdouble NcmParamType

fun class_call_run :: "class_call \<Rightarrow> NcmModelClass \<Rightarrow> fatal + NcmModelClass" where
  "class_call_run (Add_params sparam_len vparam_len nonparam_prop_len) c =
     ncm_model_class_add_params c sparam_len vparam_len nonparam_prop_len"
| "class_call_run (Set_sparam sparam_id symbol name lb ub scale abstol default_value ppt) c =
     ncm_model_class_set_sparam c sparam_id symbol name lb ub scale abstol default_value ppt"
| "class_call_run (Set_vparam vparam_id default_length symbol name lb ub scale abstol default_value ppt) c =
     ncm_model_class_set_vparam c vparam_id default_length symbol name lb ub scale abstol
       default_value ppt"

fun class_setup :: "class_call list \<Rightarrow> NcmModelClass \<Rightarrow> fatal + NcmModelClass" where
  "class_setup [] c = Inr c"
| "class_setup (call # calls) c =
     (case class_call_run call c of
        Inl e \<Rightarrow> Inl e
      | Inr c' \<Rightarrow> class_setup calls c')"



section \<open>The comparison in the specification's words\<close>

text \<open>
  Two instances are equal when they have the same concrete type, the same length, and
  either no active transform on both sides or active transforms of the same kind.
\<close>

definition models_equal :: "store \<Rightarrow> NcmModel \<Rightarrow> NcmModel \<Rightarrow> bool" where
  "models_equal s model1 model2 =
     (model_type model1 = model_type model2
      \<and> ncm_vector_len s (model_params model1) = ncm_vector_len s (model_params model2)
      \<and> (case (model_reparam model1, model_reparam model2) of
            (None, None) \<Rightarrow> True
          | (Some r1, Some r2) \<Rightarrow> reparam_type r1 = reparam_type r2
          | _ \<Rightarrow> False))"

section \<open>Concrete classes, instances and transforms\<close>

text \<open>
  A class with one scalar slot \<open>p0\<close>, bounded by 0 and 1, default one half; first as
  \<^verbatim>\<open>ncm_model_class_add_params (model_class, 1, 0, 1)\<close> leaves it, then with the slot
  registered.
\<close>

definition declared_class :: NcmModelClass where
  "declared_class =
     \<lparr>class_get_property = False, class_set_property = False,
      class_nonparam_prop_len = 1, class_sparam_len = 1, class_vparam_len = 0,
      class_parent_sparam_len = 0, class_parent_vparam_len = 0,
      class_sparam = Some [None], class_vparam = None\<rparr>"

definition unit_interval_class :: NcmModelClass where
  "unit_interval_class =
     \<lparr>class_get_property = False, class_set_property = False,
      class_nonparam_prop_len = 1, class_sparam_len = 1, class_vparam_len = 0,
      class_parent_sparam_len = 0, class_parent_vparam_len = 0,
      class_sparam = Some [Some (ncm_sparam_new ''p0'' ''p_0'' 0 1 1 0 (1/2) NCM_PARAM_TYPE_FREE)],
      class_vparam = None\<rparr>"

text \<open>The store before any vector exists, and the store holding one vector \<open>[x]\<close> at address 1.\<close>

definition empty_store :: store where
  "empty_store = \<lparr>store_vec = (\<lambda>a. []), store_next = 1\<rparr>"

definition store_with :: "gdouble \<Rightarrow> store" where
  "store_with x = \<lparr>store_vec = (\<lambda>a. [])(1 := [x]), store_next = 2\<rparr>"

text \<open>The instance of that class, as construction leaves it (lemma \<open>unit_interval_constructed\<close>).\<close>

definition unit_interval_model :: NcmModel where
  "unit_interval_model =
     \<lparr>model_type = 7,
      model_sparams = [Some (ncm_sparam_new ''p0'' ''p_0'' 0 1 1 0 (1/2) NCM_PARAM_TYPE_FREE)],
      model_sparams_name_id = [''p0'' \<mapsto> 0],
      model_params = 1,
      model_p = 1,
      model_vparam_len = [],
      model_vparam_pos = [],
      model_total_len = 1,
      model_reparam = None,
      model_ptypes = [NCM_PARAM_TYPE_FIXED]\<rparr>"

text \<open>
  A transform of length 1 that shifts by one and renames slot 0 to \<open>q0\<close>, and a transform of
  length 3. Each owns the vector at address 2.
\<close>

definition shift_reparam :: NcmReparam where
  "shift_reparam =
     \<lparr>reparam_type = 3, reparam_length = 1, reparam_new_params = 2,
      reparam_sparams = [0 \<mapsto> ncm_sparam_new ''q0'' ''q_0'' 1 2 1 0 (3/2) NCM_PARAM_TYPE_FREE],
      reparam_sparams_name_id = [''q0'' \<mapsto> 0],
      reparam_old2new = (\<lambda>v. Inr (map (\<lambda>x. x + 1) v)),
      reparam_new2old = (\<lambda>v. Inr (map (\<lambda>x. x - 1) v))\<rparr>"

definition long_reparam :: NcmReparam where
  "long_reparam =
     \<lparr>reparam_type = 4, reparam_length = 3, reparam_new_params = 2,
      reparam_sparams = Map.empty,
      reparam_sparams_name_id = Map.empty,
      reparam_old2new = (\<lambda>v. Inr [0, 0, 0]),
      reparam_new2old = (\<lambda>v. Inr [0])\<rparr>"

text \<open>The instance above with \<open>shift_reparam\<close> attached.\<close>

definition renamed_model :: NcmModel where
  "renamed_model = unit_interval_model\<lparr>model_reparam := Some shift_reparam, model_p := 2\<rparr>"

text \<open>
  A second instance of the same class, with its original vector at address 3 and
  \<open>shift_reparam\<close> attached, and a store that holds both instances.
\<close>

definition second_model :: NcmModel where
  "second_model =
     unit_interval_model\<lparr>model_params := 3, model_p := 2, model_reparam := Some shift_reparam\<rparr>"

definition two_models_store :: store where
  "two_models_store =
     \<lparr>store_vec = (\<lambda>a. [])(1 := [1/2], 2 := [3/2], 3 := [1/2]), store_next = 4\<rparr>"

text \<open>
  A two-level hierarchy: the base declares the scalar \<open>p0\<close>, the child one more scalar
  \<open>p1\<close> and a vector parameter \<open>v\<close> of default length 3. \<open>child_class\<close> is the class
  structure these calls produce (lemma \<open>two_level_setup\<close>).
\<close>

definition two_level_calls :: "class_call list" where
  "two_level_calls =
     [Add_params 1 0 1,
      Set_sparam 0 ''p_0'' ''p0'' 0 1 1 0 (1/2) NCM_PARAM_TYPE_FREE,
      Add_params 1 1 1,
      Set_sparam 1 ''p_1'' ''p1'' 0 10 1 0 5 NCM_PARAM_TYPE_FREE,
      Set_vparam 0 3 ''v'' ''v'' 0 1 1 0 (1/4) NCM_PARAM_TYPE_FIXED]"

definition child_class :: NcmModelClass where
  "child_class =
     \<lparr>class_get_property = False, class_set_property = False,
      class_nonparam_prop_len = 1, class_sparam_len = 2, class_vparam_len = 1,
      class_parent_sparam_len = 1, class_parent_vparam_len = 0,
      class_sparam = Some [Some (ncm_sparam_new ''p0'' ''p_0'' 0 1 1 0 (1/2) NCM_PARAM_TYPE_FREE),
                           Some (ncm_sparam_new ''p1'' ''p_1'' 0 10 1 0 5 NCM_PARAM_TYPE_FREE)],
      class_vparam = Some [Some (ncm_vparam_full_new 3 ''v'' ''v'' 0 1 1 0 (1/4) NCM_PARAM_TYPE_FIXED)]\<rparr>"









text \<open>
  The class structure of the child right after its \<^verbatim>\<open>ncm_model_class_add_params\<close> call: the
  parent's descriptor copied, the new slots still null.
\<close>

definition declared_child_class :: NcmModelClass where
  "declared_child_class =
     child_class\<lparr>class_sparam :=
                   Some [Some (ncm_sparam_new ''p0'' ''p_0'' 0 1 1 0 (1/2) NCM_PARAM_TYPE_FREE), None],
                 class_vparam := Some [None]\<rparr>"


text \<open>
  The child class with a nonparam count of 2, that is with one property of its own under
  id 1, and still without a handler.
\<close>

definition unhandled_class :: NcmModelClass where
  "unhandled_class = child_class\<lparr>class_nonparam_prop_len := 2\<rparr>"

text \<open>A \<open>1 \<times> 1\<close> matrix, and a serialized \<open>2 \<times> 2\<close> matrix of type \<^verbatim>\<open>aad\<close>.\<close>

definition matrix_1x1 :: NcmMatrix where
  "matrix_1x1 = gsl_matrix_view_array [5] 1 1"

definition variant_2x2 :: GVariant where
  "variant_2x2 =
     Variant_array ''ad''
       [Variant_array ''d'' [Variant_double 1, Variant_double 2],
        Variant_array ''d'' [Variant_double 3, Variant_double 4]]"

text \<open>
  What every class set up from the root class satisfies: a descriptor array that exists
  has at least as many entries as the count says.
\<close>

definition arrays_cover_counts :: "NcmModelClass \<Rightarrow> bool" where
  "arrays_cover_counts c =
     ((case class_sparam c of None \<Rightarrow> True | Some arr \<Rightarrow> unat (class_sparam_len c) \<le> length arr)
      \<and> (case class_vparam c of None \<Rightarrow> True | Some arr \<Rightarrow> unat (class_vparam_len c) \<le> length arr))"

text \<open>
  The chain of tests of the two property functions with the five candidate indices
  written as offsets from the start of each region; \<open>handler\<close> is the handler test of the
  first branch.
\<close>

definition region_walk :: "bool \<Rightarrow> NcmModelClass \<Rightarrow> guint \<Rightarrow> fatal + prop_access" where
  "region_walk handler model_class prop_id =
     (let own_s = class_sparam_len model_class - class_parent_sparam_len model_class;
          own_v = class_vparam_len model_class - class_parent_vparam_len model_class;
          a0 = prop_id - class_nonparam_prop_len model_class;
          a1 = a0 - own_s;
          a2 = a1 - own_v;
          a3 = a2 - own_v;
          a4 = a3 - own_s
      in if prop_id < class_nonparam_prop_len model_class \<and> handler
           then Inr (Class_property prop_id)
         else if a0 + class_parent_sparam_len model_class < class_sparam_len model_class
           then Inr (Sparam_value (a0 + class_parent_sparam_len model_class))
         else if a1 + class_parent_vparam_len model_class < class_vparam_len model_class
           then Inr (Vparam_value (a1 + class_parent_vparam_len model_class))
         else if a2 + class_parent_vparam_len model_class < class_vparam_len model_class
           then Inr (Vparam_length (a2 + class_parent_vparam_len model_class))
         else if a3 + class_parent_sparam_len model_class < class_sparam_len model_class
           then Inr (Sparam_fit (a3 + class_parent_sparam_len model_class))
         else if a4 + class_parent_vparam_len model_class < class_vparam_len model_class
           then Inr (Vparam_fit (a4 + class_parent_vparam_len model_class))
         else Inl Assert_not_reached)"

section \<open>The concrete values are what the code produces\<close>

lemma declared_class_added:
  "ncm_model_class_add_params ncm_model_class_init 1 0 1 = Inr declared_class"
  by (simp add: ncm_model_class_add_params_def ncm_model_class_init_def grow_params_def
        declared_class_def Let_def)

lemma unit_interval_constructed:
  "ncm_model_constructed unit_interval_class empty_store (ncm_model_init 7)
     = Inr (unit_interval_model, store_with (1/2))"
  by (simp add: ncm_model_constructed_def ncm_model_init_def ncm_model_class_init_def
        unit_interval_class_def guint_range_def ncm_vector_new_def empty_store_def
        g_array_set_size_def ncm_model_set_sparams_def ncm_model_params_set_default_def
        ncm_model_param_peek_desc_def ncm_vector_set_def ncm_model_params_update_def
        unit_interval_model_def store_with_def Let_def ncm_sparam_new_def ncm_sparam_copy_def)

section \<open>Fit types: frame property\<close>

text \<open>
  C10. For an instance whose fit-flag array has \<^verbatim>\<open>total_len\<close> entries and a slot index
  \<open>n\<close> below \<^verbatim>\<open>total_len\<close>, \<^verbatim>\<open>ncm_model_param_set_ftype\<close> returns; a following
  \<^verbatim>\<open>ncm_model_param_get_ftype\<close> at \<open>n\<close> gives the stored fit type; the fit type read at
  every other index is what it was; and the instance differs from the old one in the
  fit-flag array only, so the references to the original and to the working vector are the
  same. The store of vector contents is not an argument of the function: it is not touched.
\<close>

theorem param_set_ftype_frame:
  assumes "length (model_ptypes model) = unat (model_total_len model)"
    and "n < model_total_len model"
  shows "\<exists>model'. ncm_model_param_set_ftype model n t = Inr model'
           \<and> ncm_model_param_get_ftype model' n = Inr t
           \<and> (\<forall>k. k \<noteq> n \<longrightarrow> ncm_model_param_get_ftype model' k = ncm_model_param_get_ftype model k)
           \<and> model' = model\<lparr>model_ptypes := model_ptypes model'\<rparr>
           \<and> model_params model' = model_params model
           \<and> model_p model' = model_p model
           \<and> length (model_ptypes model') = length (model_ptypes model)"
  using assms
  by (auto simp: ncm_model_param_set_ftype_def ncm_model_param_get_ftype_def nth_list_update
                 word_unat_eq_iff word_less_nat_alt)

theorem param_set_ftype_frame_witness:
  "length (model_ptypes unit_interval_model) = unat (model_total_len unit_interval_model)
   \<and> 0 < model_total_len unit_interval_model
   \<and> ncm_model_param_get_ftype unit_interval_model 0 = Inr NCM_PARAM_TYPE_FIXED
   \<and> ncm_model_param_set_ftype unit_interval_model 0 NCM_PARAM_TYPE_FREE
       = Inr (unit_interval_model\<lparr>model_ptypes := [NCM_PARAM_TYPE_FREE]\<rparr>)
   \<and> ncm_model_param_get_ftype (unit_interval_model\<lparr>model_ptypes := [NCM_PARAM_TYPE_FREE]\<rparr>) 0
       = Inr NCM_PARAM_TYPE_FREE"
proof -
  have a: "length (model_ptypes unit_interval_model) = unat (model_total_len unit_interval_model)"
    by (simp add: unit_interval_model_def)
  have b: "0 < model_total_len unit_interval_model"
    by (simp add: unit_interval_model_def)
  from param_set_ftype_frame [OF a b, of NCM_PARAM_TYPE_FREE] a b show ?thesis
    by (auto simp: ncm_model_param_set_ftype_def ncm_model_param_get_ftype_def
          unit_interval_model_def)
qed

section \<open>The bounds check\<close>

text \<open>
  C1. On the freshly constructed instance with one slot bounded by 0 and 1 and holding
  one half, every slot lies within its bounds, yet \<^verbatim>\<open>ncm_model_params_valid_bounds\<close> returns
  false: the upper bound it compares with is the lower bound again. With the value \<open>-1\<close>
  or \<open>2\<close> it returns false as well, and with the value 0, the lower bound itself, true.
\<close>

theorem params_valid_bounds_rejects_inner_value:
  "ncm_model_params_valid_bounds (store_with (1/2)) unit_interval_model = Inr False
   \<and> bounds_check (store_with (1/2)) unit_interval_model
   \<and> ncm_model_params_valid_bounds (store_with (- 1)) unit_interval_model = Inr False
   \<and> ncm_model_params_valid_bounds (store_with 2) unit_interval_model = Inr False
   \<and> ncm_model_params_valid_bounds (store_with 0) unit_interval_model = Inr True"
  by (simp add: ncm_model_params_valid_bounds_def guint_range_def unit_interval_model_def
       ncm_model_param_get_lower_bound_def ncm_model_param_peek_desc_def ncm_model_param_get_def
       ncm_vector_get_def store_with_def ncm_sparam_new_def bounds_check_def
       ncm_model_orig_param_get_def)

text \<open>
  What the loop computes when it returns: whether every slot of the working space holds
  exactly its lower bound.
\<close>

lemma valid_bounds_loop_true_iff:
  assumes "valid_bounds_loop s model is = Inr b"
  shows "b \<longleftrightarrow>
           list_all
             (\<lambda>i. case (ncm_model_param_peek_desc model (of_nat i),
                         ncm_model_param_get s model (of_nat i)) of
                     (Inr desc, Inr val) \<Rightarrow> val = sparam_lower_bound desc
                   | _ \<Rightarrow> False) is"
  using assms
proof (induction "is")
  case Nil
  then show ?case by auto
next
  case (Cons i "is")
  then show ?case
    by (auto simp: ncm_model_param_get_lower_bound_def split: sum.splits if_splits)
qed


section \<open>Comparing two instances\<close>

text \<open>
  C5. Two instances of the same type and length, the first without an active transform,
  the second with one: \<^verbatim>\<open>ncm_model_is_equal\<close> answers true, although the two do not have the
  same reparametrization; with the arguments exchanged it answers false.
\<close>

theorem is_equal_ignores_second_reparam:
  "ncm_model_is_equal two_models_store unit_interval_model second_model = True
   \<and> models_equal two_models_store unit_interval_model second_model = False
   \<and> ncm_model_is_equal two_models_store second_model unit_interval_model = False"
  by (simp add: ncm_model_is_equal_def models_equal_def ncm_vector_len_def two_models_store_def
        unit_interval_model_def second_model_def)

text \<open>Everywhere else the function agrees with the comparison of the specification.\<close>

lemma is_equal_agrees_otherwise:
  assumes "model_reparam model1 \<noteq> None \<or> model_reparam model2 = None"
  shows "ncm_model_is_equal s model1 model2 = models_equal s model1 model2"
  using assms
  by (auto simp: ncm_model_is_equal_def models_equal_def split: option.splits)

section \<open>Attaching and detaching a reparametrization\<close>

text \<open>
  C4. Let attaching a transform \<open>T\<close> return (its forward map does not stop), and let the
  vector owned by \<open>T\<close> be another vector than the instance's original one. Then detaching
  returns, the instance is the one before the attach except that no transform is active and
  the working vector is the original vector again (the same reference), and the contents of
  the original vector are those before the attach.
\<close>

theorem set_reparam_round_trip:
  assumes "ncm_model_set_reparam s model (Some T) = Inr (model1, s1)"
    and "reparam_new_params T \<noteq> model_params model"
  shows "ncm_model_set_reparam s1 model1 None
           = Inr (model\<lparr>model_reparam := None, model_p := model_params model\<rparr>, s1)
         \<and> store_vec s1 (model_params model) = store_vec s (model_params model)"
  using assms
  by (auto simp: ncm_model_set_reparam_def ncm_model_sparams_remove_reparam_def
        ncm_reparam_old2new_def Let_def split: sum.splits if_splits)

theorem set_reparam_round_trip_witness:
  "(case ncm_model_set_reparam (store_with (1/2)) unit_interval_model (Some shift_reparam) of
      Inl e \<Rightarrow> False
    | Inr (model1, s1) \<Rightarrow>
        reparam_new_params shift_reparam \<noteq> model_params unit_interval_model
        \<and> store_vec s1 (model_p model1) = [3/2]
        \<and> (case ncm_model_set_reparam s1 model1 None of
              Inl e \<Rightarrow> False
            | Inr (model2, s2) \<Rightarrow>
                model_p model2 = model_params model2 \<and> model_reparam model2 = None
                \<and> store_vec s2 (model_params model2) = [1/2]))"
proof -
  obtain model1 s1 where
    a: "ncm_model_set_reparam (store_with (1/2)) unit_interval_model (Some shift_reparam) = Inr (model1, s1)"
    and c: "store_vec s1 (model_p model1) = [3/2]"
    by (simp add: ncm_model_set_reparam_def ncm_reparam_old2new_def store_with_def
          unit_interval_model_def shift_reparam_def Let_def)
  have b: "reparam_new_params shift_reparam \<noteq> model_params unit_interval_model"
    by (simp add: shift_reparam_def unit_interval_model_def)
  from set_reparam_round_trip [OF a b] show ?thesis
    by (simp add: a b c) (simp add: store_with_def unit_interval_model_def)
qed

text \<open>
  The function itself tests the pointer only; what it does with a transform is to store
  it, to redirect the working vector and to call \<^verbatim>\<open>ncm_reparam_old2new\<close>. When the lengths
  agree and the forward map returns, the transform is attached and the working vector
  holds the image.
\<close>

lemma set_reparam_matching_length:
  assumes "reparam_length r = model_total_len model"
    and "reparam_old2new r (store_vec s (model_params model)) = Inr v"
  shows "ncm_model_set_reparam s model (Some r)
           = Inr (model\<lparr>model_reparam := Some r, model_p := reparam_new_params r\<rparr>,
                  s\<lparr>store_vec := (store_vec s)(reparam_new_params r := v)\<rparr>)"
  using assms by (simp add: ncm_model_set_reparam_def ncm_reparam_old2new_def Let_def)

text \<open>
  C8. Attaching a transform whose length differs from the \<^verbatim>\<open>total_len\<close> of the instance
  stops the program, for every instance, store and transform: the call of
  \<^verbatim>\<open>ncm_reparam_old2new\<close> that \<^verbatim>\<open>ncm_model_set_reparam\<close> makes for every non-null transform
  does not return, so the attach call returns neither an instance nor a store.
\<close>

theorem set_reparam_mismatch_is_fatal:
  assumes "reparam_length r \<noteq> model_total_len model"
  shows "ncm_model_set_reparam s model (Some r) = Inl Assert_failed"
  using assms by (simp add: ncm_model_set_reparam_def ncm_reparam_old2new_def Let_def)

theorem set_reparam_mismatch_is_fatal_witness:
  "reparam_length long_reparam = 3 \<and> model_total_len unit_interval_model = 1
   \<and> ncm_model_set_reparam (store_with (1/2)) unit_interval_model (Some long_reparam)
      = Inl Assert_failed"
proof -
  have ne: "reparam_length long_reparam \<noteq> model_total_len unit_interval_model"
    by (simp add: long_reparam_def unit_interval_model_def)
  from set_reparam_mismatch_is_fatal [OF ne, of "store_with (1/2)"] show ?thesis
    by (simp add: long_reparam_def unit_interval_model_def)
qed

section \<open>Looking a slot up by name\<close>

text \<open>
  C6. Without an active transform the lookup is the one in the instance's own name table.
  With an active transform, a name found in the transform's table is returned from there;
  a name missed there and missed in the instance's table is reported as not found, with
  index \<open>-1\<close>; a name missed there and found in the instance's table at a slot that the
  transform renames ends the program with \<^verbatim>\<open>g_error\<close>; at any other slot it is returned as
  found.
\<close>

theorem param_index_from_name_chain:
  "(model_reparam model = None \<longrightarrow>
      ncm_model_param_index_from_name model param_name =
        Inr (ncm_model_orig_param_index_from_name model param_name))
   \<and> (\<forall>r. model_reparam model = Some r \<longrightarrow>
        (\<forall>i. reparam_sparams_name_id r param_name = Some i \<longrightarrow>
             ncm_model_param_index_from_name model param_name = Inr (True, i))
        \<and> (reparam_sparams_name_id r param_name = None \<longrightarrow>
             (model_sparams_name_id model param_name = None \<longrightarrow>
                ncm_model_param_index_from_name model param_name = Inr (False, - 1))
             \<and> (\<forall>i. model_sparams_name_id model param_name = Some i \<longrightarrow>
                   (reparam_sparams r i \<noteq> None \<longrightarrow>
                      ncm_model_param_index_from_name model param_name =
                        Inl (Error_param_changed_by_reparam param_name))
                   \<and> (reparam_sparams r i = None \<longrightarrow>
                      ncm_model_param_index_from_name model param_name = Inr (True, i)))))"
  by (auto simp: ncm_model_param_index_from_name_def ncm_model_peek_reparam_def
        ncm_reparam_index_from_name_def ncm_model_orig_param_index_from_name_def
        ncm_reparam_peek_param_desc_def)

theorem param_index_from_name_chain_witness:
  "ncm_model_param_index_from_name renamed_model ''p0'' = Inl (Error_param_changed_by_reparam ''p0'')
   \<and> ncm_model_param_index_from_name renamed_model ''q0'' = Inr (True, 0)
   \<and> ncm_model_param_index_from_name renamed_model ''r0'' = Inr (False, - 1)
   \<and> ncm_model_param_index_from_name unit_interval_model ''p0'' = Inr (True, 0)
   \<and> ncm_model_param_index_from_name unit_interval_model ''q0'' = Inr (False, - 1)"
  using param_index_from_name_chain [of renamed_model "''p0''"]
    param_index_from_name_chain [of renamed_model "''q0''"]
    param_index_from_name_chain [of renamed_model "''r0''"]
    param_index_from_name_chain [of unit_interval_model "''p0''"]
    param_index_from_name_chain [of unit_interval_model "''q0''"]
  by (simp add: renamed_model_def unit_interval_model_def shift_reparam_def
        ncm_model_orig_param_index_from_name_def)

section \<open>Registering a scalar slot twice\<close>

text \<open>
  C7. If \<^verbatim>\<open>ncm_model_class_set_sparam\<close> has registered a descriptor at a slot, a second call
  for the same slot, with any arguments, ends the program with the \<^verbatim>\<open>g_error\<close> "already
  set", and the slot holds the descriptor of the first call. More generally, a call for a
  slot that holds a descriptor, wherever it came from, never returns and never writes the
  slot: it ends in that \<^verbatim>\<open>g_error\<close>, or in the assertion on the property id that precedes
  the test (a slot inherited from the parent has property id 0 or wraps around).
\<close>

theorem set_sparam_twice_fails:
  "(ncm_model_class_set_sparam model_class sparam_id symbol1 name1 lb1 ub1 scale1 abstol1
        default1 ppt1 = Inr model_class' \<longrightarrow>
      ncm_model_class_set_sparam model_class' sparam_id symbol2 name2 lb2 ub2 scale2 abstol2
          default2 ppt2 = Inl (Error_sparam_already_set sparam_id)
      \<and> (\<exists>arr. class_sparam model_class' = Some arr \<and> unat sparam_id < length arr
            \<and> arr ! unat sparam_id
                = Some (ncm_sparam_new name1 symbol1 lb1 ub1 scale1 abstol1 default1 ppt1)))
   \<and> (class_sparam model_class = Some arr0 \<and> unat sparam_id < length arr0
        \<and> arr0 ! unat sparam_id \<noteq> None \<longrightarrow>
      ncm_model_class_set_sparam model_class sparam_id symbol2 name2 lb2 ub2 scale2 abstol2
          default2 ppt2
        = Inl (if 0 < sparam_prop_id model_class sparam_id
               then Error_sparam_already_set sparam_id else Assert_failed))"
  by (auto simp: ncm_model_class_set_sparam_def sparam_prop_id_def Let_def
           split: if_splits option.splits)

theorem set_sparam_twice_fails_witness:
  "ncm_model_class_set_sparam declared_class 0 ''p_0'' ''p0'' 0 1 1 0 (1/2) NCM_PARAM_TYPE_FREE
     = Inr unit_interval_class
   \<and> ncm_model_class_set_sparam unit_interval_class 0 ''x_0'' ''x0'' 5 6 1 0 5 NCM_PARAM_TYPE_FIXED
     = Inl (Error_sparam_already_set 0)
   \<and> class_sparam unit_interval_class
     = Some [Some (ncm_sparam_new ''p0'' ''p_0'' 0 1 1 0 (1/2) NCM_PARAM_TYPE_FREE)]
   \<and> ncm_model_class_set_sparam declared_child_class 0 ''x_0'' ''x0'' 5 6 1 0 5 NCM_PARAM_TYPE_FIXED
     = Inl Assert_failed"
proof -
  have a: "ncm_model_class_set_sparam declared_class 0 ''p_0'' ''p0'' 0 1 1 0 (1/2) NCM_PARAM_TYPE_FREE
     = Inr unit_interval_class"
    by (simp add: ncm_model_class_set_sparam_def sparam_prop_id_def declared_class_def
          unit_interval_class_def Let_def)
  have b: "class_sparam declared_child_class
             = Some [Some (ncm_sparam_new ''p0'' ''p_0'' 0 1 1 0 (1/2) NCM_PARAM_TYPE_FREE), None]"
    by (simp add: declared_child_class_def)
  have c: "sparam_prop_id declared_child_class 0 = 0"
    by (simp add: declared_child_class_def child_class_def sparam_prop_id_def)
  from set_sparam_twice_fails
         [of declared_class 0 "''p_0''" "''p0''" 0 1 1 0 "1/2" NCM_PARAM_TYPE_FREE
             unit_interval_class "''x_0''" "''x0''" 5 6 1 0 5 NCM_PARAM_TYPE_FIXED]
       set_sparam_twice_fails
         [of declared_child_class 0 _ _ _ _ _ _ _ _ _ "''x_0''" "''x0''" 5 6 1 0 5 NCM_PARAM_TYPE_FIXED
             "[Some (ncm_sparam_new ''p0'' ''p_0'' 0 1 1 0 (1/2) NCM_PARAM_TYPE_FREE), None]"]
       a b c
  show ?thesis
    by (simp add: unit_interval_class_def)
qed

section \<open>Setting a matrix from a serialized value\<close>

lemma set_from_variant_new_matrix:
  "ncm_matrix_set_from_variant (gsl_matrix_view_array [] 0 0) variant_2x2
     = Inr (gsl_matrix_view_array [1, 2, 3, 4] 2 2)"
  by code_simp

text \<open>
  C9. A \<open>1 \<times> 1\<close> matrix and a serialized \<open>2 \<times> 2\<close> matrix: \<^verbatim>\<open>ncm_matrix_set_from_variant\<close> ends
  the program with \<^verbatim>\<open>g_error\<close>; nothing is reported to the caller.
\<close>

theorem set_from_variant_mismatch_aborts:
  "ncm_matrix_set_from_variant matrix_1x1 variant_2x2 = Inl (Error_matrix_dimension 2 2 1 1)"
  by (simp add: ncm_matrix_set_from_variant_def matrix_1x1_def variant_2x2_def
        g_variant_is_of_type_def ncm_matrix_nrows_def ncm_matrix_ncols_def
        gsl_matrix_view_array_def Let_def)

text \<open>
  C9, as the code has it. For a variant of type \<^verbatim>\<open>aad\<close> with at least one row and a target
  matrix that is not \<open>0 \<times> 0\<close>: if the number of rows of the variant differs from that of
  the matrix, or the number of children of its first row from the number of columns,
  \<^verbatim>\<open>ncm_matrix_set_from_variant\<close> ends the program with the \<^verbatim>\<open>g_error\<close> that names the four
  dimensions. It does so before the loops that write entries.
\<close>

theorem set_from_variant_shape_error:
  assumes "var = Variant_array ''ad'' (Variant_array t cols # rows)"
    and "Suc (length rows) < 2 ^ 32" and "length cols < 2 ^ 32"
    and "\<not> (ncm_matrix_nrows cm = 0 \<and> ncm_matrix_ncols cm = 0)"
    and "Suc (length rows) \<noteq> ncm_matrix_nrows cm \<or> length cols \<noteq> ncm_matrix_ncols cm"
  shows "ncm_matrix_set_from_variant cm var
           = Inl (Error_matrix_dimension (of_nat (Suc (length rows))) (of_nat (length cols))
                    (ncm_matrix_nrows cm) (ncm_matrix_ncols cm))"
proof -
  have r: "unat (of_nat (Suc (length rows)) :: guint) = Suc (length rows)"
    using assms(2) by (simp only: unat_of_nat) simp
  have c: "unat (of_nat (length cols) :: guint) = length cols"
    using assms(3) by (simp only: unat_of_nat) simp
  show ?thesis
    using assms(4,5) r c
    by (auto simp add: ncm_matrix_set_from_variant_def assms(1) g_variant_is_of_type_def Let_def
          simp del: of_nat_Suc)
qed

theorem set_from_variant_shape_error_witness:
  "ncm_matrix_set_from_variant (gsl_matrix_view_array [1, 2, 3] 1 3) variant_2x2
     = Inl (Error_matrix_dimension 2 2 1 3)"
  using set_from_variant_shape_error
    [of variant_2x2 "''d''" "[Variant_double 1, Variant_double 2]"
        "[Variant_array ''d'' [Variant_double 3, Variant_double 4]]"
        "gsl_matrix_view_array [1, 2, 3] 1 3"]
  by (simp add: variant_2x2_def ncm_matrix_nrows_def ncm_matrix_ncols_def gsl_matrix_view_array_def)

section \<open>Resolution of property ids\<close>

text \<open>
  Both property functions are the walk over offsets: the five candidate indices of the
  source are the offsets plus the parent counts, by ring arithmetic in \<open>32 word\<close>.
\<close>

lemma get_property_region_walk:
  "ncm_model_class_get_property c N = region_walk (class_get_property c) c N"
  by (simp add: ncm_model_class_get_property_def region_walk_def Let_def algebra_simps)

lemma set_property_region_walk:
  "ncm_model_class_set_property c N = region_walk (class_set_property c) c N"
  by (simp add: ncm_model_class_set_property_def region_walk_def Let_def algebra_simps)

lemma region_test:
  fixes a p l :: guint
  assumes "p \<le> l" and "unat a + unat p < 2 ^ 32"
  shows "(a + p < l) \<longleftrightarrow> (unat a < unat l - unat p)"
proof -
  have "unat (a + p) = unat a + unat p"
    using assms(2) by (simp add: unat_word_ariths)
  moreover have "unat p \<le> unat l"
    using assms(1) by (simp add: word_le_nat_alt)
  ultimately show ?thesis
    by (auto simp: word_less_nat_alt)
qed

lemma region_next:
  fixes a p l :: guint
  assumes "p \<le> l" and "\<not> unat a < unat l - unat p"
  shows "unat (a - (l - p)) = unat a - (unat l - unat p)"
proof -
  have lp: "unat (l - p) = unat l - unat p"
    using assms(1) by (simp add: unat_sub)
  then have "l - p \<le> a"
    using assms(2) by (simp add: word_le_nat_alt)
  then show ?thesis
    by (simp add: unat_sub lp)
qed

lemma follows_layout_unfold:
  "follows_layout c N =
     (let s = own_sparam_len c; v = own_vparam_len c;
          k = unat N - unat (class_nonparam_prop_len c) in
      if N < class_nonparam_prop_len c then Inr (Class_property N)
      else if k < s then Inr (Sparam_value (of_nat (unat (class_parent_sparam_len c) + k)))
      else if k < s + v then Inr (Vparam_value (of_nat (unat (class_parent_vparam_len c) + (k - s))))
      else if k < s + v + v then Inr (Vparam_length (of_nat (unat (class_parent_vparam_len c) + (k - s - v))))
      else if k < s + v + v + s then Inr (Sparam_fit (of_nat (unat (class_parent_sparam_len c) + (k - s - v - v))))
      else if k < s + v + v + s + v then Inr (Vparam_fit (of_nat (unat (class_parent_vparam_len c) + (k - s - v - v - s))))
      else Inl Assert_not_reached)"
  unfolding follows_layout_def property_layout_def Let_def
  by (simp only: if_distrib [of "case_option (Inl Assert_not_reached) Inr"] option.case)

lemma follows_layout_region_walk:
  assumes h: "class_nonparam_prop_len c \<le> N \<or> handler"
    and ps: "class_parent_sparam_len c \<le> class_sparam_len c"
    and pv: "class_parent_vparam_len c \<le> class_vparam_len c"
    and ws: "unat N + unat (class_parent_sparam_len c) < 2 ^ 32"
    and wv: "unat N + unat (class_parent_vparam_len c) < 2 ^ 32"
  shows "region_walk handler c N = follows_layout c N"
proof (cases "N < class_nonparam_prop_len c")
  case True
  with h have handler by auto
  with True show ?thesis
    by (simp add: region_walk_def follows_layout_unfold Let_def)
next
  case False
  define P where "P = class_parent_sparam_len c"
  define S where "S = class_sparam_len c"
  define Q where "Q = class_parent_vparam_len c"
  define V where "V = class_vparam_len c"
  define s where "s = unat S - unat P"
  define v where "v = unat V - unat Q"
  define a0 where "a0 = N - class_nonparam_prop_len c"
  define a1 where "a1 = a0 - (S - P)"
  define a2 where "a2 = a1 - (V - Q)"
  define a3 where "a3 = a2 - (V - Q)"
  define a4 where "a4 = a3 - (S - P)"
  define k where "k = unat N - unat (class_nonparam_prop_len c)"
  have PS: "P \<le> S" and QV: "Q \<le> V"
    using ps pv by (simp_all add: P_def S_def Q_def V_def)
  have k0: "unat a0 = k"
    using False by (simp add: a0_def k_def unat_sub not_less)
  have kN: "k \<le> unat N"
    by (simp add: k_def)
  have bP: "k + unat P < 2 ^ 32" and bQ: "k + unat Q < 2 ^ 32"
    using kN ws wv by (simp_all add: P_def Q_def)
  have t0: "(a0 + P < S) \<longleftrightarrow> k < s"
    using region_test [OF PS, of a0] bP by (simp add: k0 s_def)
  have n1: "unat a1 = k - s" if "\<not> k < s"
    using region_next [OF PS, of a0] that by (simp add: k0 s_def a1_def)
  have t1: "(a1 + Q < V) \<longleftrightarrow> k - s < v" if "\<not> k < s"
  proof -
    have "unat a1 + unat Q < 2 ^ 32"
      using n1 [OF that] bQ by arith
    from region_test [OF QV this] show ?thesis
      by (simp add: n1 [OF that] v_def)
  qed
  have n2: "unat a2 = k - s - v" if "\<not> k < s" "\<not> k - s < v"
    using region_next [OF QV, of a1] that n1 by (simp add: v_def a2_def)
  have t2: "(a2 + Q < V) \<longleftrightarrow> k - s - v < v" if "\<not> k < s" "\<not> k - s < v"
  proof -
    have "unat a2 + unat Q < 2 ^ 32"
      using n2 [OF that] bQ by arith
    from region_test [OF QV this] show ?thesis
      by (simp add: n2 [OF that] v_def)
  qed
  have n3: "unat a3 = k - s - v - v" if "\<not> k < s" "\<not> k - s < v" "\<not> k - s - v < v"
    using region_next [OF QV, of a2] that n2 by (simp add: v_def a3_def)
  have t3: "(a3 + P < S) \<longleftrightarrow> k - s - v - v < s"
    if "\<not> k < s" "\<not> k - s < v" "\<not> k - s - v < v"
  proof -
    have "unat a3 + unat P < 2 ^ 32"
      using n3 [OF that] bP by arith
    from region_test [OF PS this] show ?thesis
      by (simp add: n3 [OF that] s_def)
  qed
  have n4: "unat a4 = k - s - v - v - s"
    if "\<not> k < s" "\<not> k - s < v" "\<not> k - s - v < v" "\<not> k - s - v - v < s"
    using region_next [OF PS, of a3] that n3 by (simp add: s_def a4_def)
  have t4: "(a4 + Q < V) \<longleftrightarrow> k - s - v - v - s < v"
    if "\<not> k < s" "\<not> k - s < v" "\<not> k - s - v < v" "\<not> k - s - v - v < s"
  proof -
    have "unat a4 + unat Q < 2 ^ 32"
      using n4 [OF that] bQ by arith
    from region_test [OF QV this] show ?thesis
      by (simp add: n4 [OF that] v_def)
  qed
  have walk: "region_walk handler c N =
     (if a0 + P < S then Inr (Sparam_value (a0 + P))
      else if a1 + Q < V then Inr (Vparam_value (a1 + Q))
      else if a2 + Q < V then Inr (Vparam_length (a2 + Q))
      else if a3 + P < S then Inr (Sparam_fit (a3 + P))
      else if a4 + Q < V then Inr (Vparam_fit (a4 + Q))
      else Inl Assert_not_reached)"
    using False
    unfolding region_walk_def Let_def P_def S_def Q_def V_def a0_def a1_def a2_def a3_def a4_def
    by (simp split del: if_split)
  have layout: "follows_layout c N =
     (if k < s then Inr (Sparam_value (of_nat (unat P + k)))
      else if k < s + v then Inr (Vparam_value (of_nat (unat Q + (k - s))))
      else if k < s + v + v then Inr (Vparam_length (of_nat (unat Q + (k - s - v))))
      else if k < s + v + v + s then Inr (Sparam_fit (of_nat (unat P + (k - s - v - v))))
      else if k < s + v + v + s + v then Inr (Vparam_fit (of_nat (unat Q + (k - s - v - v - s))))
      else Inl Assert_not_reached)"
    using False
    unfolding follows_layout_unfold Let_def own_sparam_len_def own_vparam_len_def
      P_def S_def Q_def V_def s_def v_def k_def
    by (simp split del: if_split)
  have w: "of_nat (unat y + unat x) = x + y" for x y :: guint
    by (simp add: word_arith_nat_add [symmetric] add.commute)
  show ?thesis
  proof (cases "k < s")
    case True
    then show ?thesis
      using t0 w [of P a0] by (simp split del: if_split add: walk layout k0)
  next
    case c0: False
    show ?thesis
    proof (cases "k - s < v")
      case True
      with c0 have "k < s + v" by arith
      with c0 True show ?thesis
        using t0 t1 w [of Q a1] by (simp split del: if_split add: walk layout n1)
    next
      case c1: False
      with c0 have b1: "\<not> k < s + v" by arith
      show ?thesis
      proof (cases "k - s - v < v")
        case True
        with c0 c1 have "k < s + v + v" by arith
        with c0 c1 b1 True show ?thesis
          using t0 t1 t2 w [of Q a2] by (simp split del: if_split add: walk layout n2)
      next
        case c2: False
        with c0 c1 have b2: "\<not> k < s + v + v" by arith
        show ?thesis
        proof (cases "k - s - v - v < s")
          case True
          with c0 c1 c2 have "k < s + v + v + s" by arith
          with c0 c1 c2 b1 b2 True show ?thesis
            using t0 t1 t2 t3 w [of P a3] by (simp split del: if_split add: walk layout n3)
        next
          case c3: False
          with c0 c1 c2 have b3: "\<not> k < s + v + v + s" by arith
          show ?thesis
          proof (cases "k - s - v - v - s < v")
            case True
            with c0 c1 c2 c3 have "k < s + v + v + s + v" by arith
            with c0 c1 c2 c3 b1 b2 b3 True show ?thesis
              using t0 t1 t2 t3 t4 w [of Q a4] by (simp split del: if_split add: walk layout n4)
          next
            case c4: False
            with c0 c1 c2 c3 have "\<not> k < s + v + v + s + v" by arith
            with c0 c1 c2 c3 c4 b1 b2 b3 show ?thesis
              using t0 t1 t2 t3 t4 by (simp split del: if_split add: walk layout)
          qed
        qed
      qed
    qed
  qed
qed


text \<open>
  C2. In \<open>unhandled_class\<close> no handler is installed and the nonparam count is 2. Property
  id 1 lies below the nonparam count; \<^verbatim>\<open>_ncm_model_class_get_property\<close> and
  \<^verbatim>\<open>_ncm_model_class_set_property\<close> do not hand it to a handler of the level but resolve it to
  the value of scalar slot 0, a slot of the parent.
\<close>

theorem property_below_nonparam_without_handler:
  "1 < class_nonparam_prop_len unhandled_class
   \<and> property_layout unhandled_class 1 = Some (Class_property 1)
   \<and> ncm_model_class_get_property unhandled_class 1 = Inr (Sparam_value 0)
   \<and> ncm_model_class_set_property unhandled_class 1 = Inr (Sparam_value 0)"
  by (simp add: unhandled_class_def child_class_def property_layout_def own_sparam_len_def
        own_vparam_len_def ncm_model_class_get_property_def ncm_model_class_set_property_def
        Let_def)

text \<open>
  C2, as the code has it. Take a class level whose parent counts do not exceed its counts,
  and a property id that, added to either parent count, stays below \<open>2 ^ 32\<close>. If the id is
  not below the nonparam count, or the level has installed its handler for the direction
  asked (get or set), the request is resolved as the layout says: an id below the nonparam
  count goes to the handler; otherwise the nonparam count is subtracted and the offset is
  looked for, in this order, among the own scalar values, own vector values, own vector
  lengths, own scalar fit flags and own vector fit flags, each region as long as the
  level's own count of that kind; an offset beyond the five regions ends the program with
  \<^verbatim>\<open>g_assert_not_reached\<close>.
\<close>

theorem property_resolution_follows_layout:
  assumes "class_parent_sparam_len c \<le> class_sparam_len c"
    and "class_parent_vparam_len c \<le> class_vparam_len c"
    and "unat N + unat (class_parent_sparam_len c) < 2 ^ 32"
    and "unat N + unat (class_parent_vparam_len c) < 2 ^ 32"
  shows "(class_nonparam_prop_len c \<le> N \<or> class_get_property c \<longrightarrow>
            ncm_model_class_get_property c N = follows_layout c N)
         \<and> (class_nonparam_prop_len c \<le> N \<or> class_set_property c \<longrightarrow>
            ncm_model_class_set_property c N = follows_layout c N)"
  using follows_layout_region_walk [OF _ assms, of "class_get_property c"]
    follows_layout_region_walk [OF _ assms, of "class_set_property c"]
  by (simp add: get_property_region_walk set_property_region_walk)

theorem property_resolution_follows_layout_witness:
  "ncm_model_class_get_property child_class 1 = Inr (Sparam_value 1)
   \<and> ncm_model_class_get_property child_class 2 = Inr (Vparam_value 0)
   \<and> ncm_model_class_set_property child_class 3 = Inr (Vparam_length 0)
   \<and> ncm_model_class_set_property child_class 4 = Inr (Sparam_fit 1)
   \<and> ncm_model_class_get_property child_class 5 = Inr (Vparam_fit 0)
   \<and> ncm_model_class_get_property child_class 6 = Inl Assert_not_reached
   \<and> ncm_model_class_get_property (child_class\<lparr>class_get_property := True\<rparr>) 0
       = Inr (Class_property 0)"
  using property_resolution_follows_layout [of child_class 1]
    property_resolution_follows_layout [of child_class 2]
    property_resolution_follows_layout [of child_class 3]
    property_resolution_follows_layout [of child_class 4]
    property_resolution_follows_layout [of child_class 5]
    property_resolution_follows_layout [of child_class 6]
    property_resolution_follows_layout [of "child_class\<lparr>class_get_property := True\<rparr>" 0]
  by (simp add: child_class_def follows_layout_def property_layout_def own_sparam_len_def
        own_vparam_len_def Let_def)

text \<open>
  The two bounds on the id are needed: in a class with two parent scalars, the id
  \<open>2 ^ 32 - 1\<close> wraps around to the value of scalar slot 0, although it lies beyond every
  region of the layout.
\<close>

lemma property_id_wraps:
  "property_layout (child_class\<lparr>class_parent_sparam_len := 2, class_sparam_len := 3\<rparr>) 4294967295
     = None
   \<and> ncm_model_class_get_property
        (child_class\<lparr>class_parent_sparam_len := 2, class_sparam_len := 3\<rparr>) 4294967295
      = Inr (Sparam_value 0)"
  by (simp add: child_class_def property_layout_def own_sparam_len_def own_vparam_len_def
        ncm_model_class_get_property_def Let_def)

text \<open>
  The two order conditions hold for every class that \<^verbatim>\<open>ncm_model_class_add_params\<close> returns,
  as long as the counts do not overflow.
\<close>

lemma add_params_parent_le:
  assumes "ncm_model_class_add_params c sparam_len vparam_len nonparam_prop_len = Inr c'"
    and "unat (class_sparam_len c) + unat sparam_len < 2 ^ 32"
    and "unat (class_vparam_len c) + unat vparam_len < 2 ^ 32"
  shows "class_parent_sparam_len c' \<le> class_sparam_len c'
         \<and> class_parent_vparam_len c' \<le> class_vparam_len c'"
proof -
  have "class_parent_sparam_len c' = class_sparam_len c"
    and "class_parent_vparam_len c' = class_vparam_len c"
    and "class_sparam_len c' = class_sparam_len c + sparam_len"
    and "class_vparam_len c' = class_vparam_len c + vparam_len"
    using assms(1)
    by (auto simp: ncm_model_class_add_params_def Let_def split: sum.splits)
  with assms(2,3) show ?thesis
    by (simp add: word_le_nat_alt unat_word_ariths)
qed

text \<open>
  The ids that the registration functions install are resolved back to the slot they were
  computed for: in \<open>child_class\<close>, scalar slot 1 and vector slot 0.
\<close>

lemma registered_ids_resolve:
  "ncm_model_class_get_property child_class (sparam_prop_id child_class 1) = Inr (Sparam_value 1)
   \<and> ncm_model_class_get_property child_class (sparam_prop_fit_id child_class 1) = Inr (Sparam_fit 1)
   \<and> ncm_model_class_get_property child_class (vparam_prop_id child_class 0) = Inr (Vparam_value 0)
   \<and> ncm_model_class_get_property child_class (vparam_prop_len_id child_class 0) = Inr (Vparam_length 0)
   \<and> ncm_model_class_get_property child_class (vparam_prop_fit_id child_class 0) = Inr (Vparam_fit 0)"
  by (simp add: child_class_def sparam_prop_id_def sparam_prop_fit_id_def vparam_prop_id_def
        vparam_prop_len_id_def vparam_prop_fit_id_def ncm_model_class_get_property_def Let_def)

section \<open>Class set-up and the length of an instance\<close>

lemma copy_parent_params_Inr:
  assumes "copy_parent_params copy old is new0 = Inr new"
  shows "length new = length new0
         \<and> (\<forall>i \<in> set is. i < length old \<and> (i < length new \<longrightarrow> new ! i = map_option copy (old ! i)))
         \<and> (\<forall>j. j \<notin> set is \<longrightarrow> new ! j = new0 ! j)"
  using assms
proof (induction "is" arbitrary: new0)
  case Nil
  then show ?case by simp
next
  case (Cons i "is")
  from Cons.prems obtain d where
    i: "i < length old" and d: "old ! i = Some d"
    and rest: "copy_parent_params copy old is (new0[i := Some (copy d)]) = Inr new"
    by (auto split: if_splits option.splits)
  note ih = Cons.IH [OF rest]
  from ih have len: "length new = length new0" by simp
  have at_i: "new ! i = map_option copy (old ! i)" if "i < length new"
  proof (cases "i \<in> set is")
    case True
    with ih that show ?thesis by blast
  next
    case False
    with ih have "new ! i = (new0[i := Some (copy d)]) ! i" by blast
    with that len d show ?thesis by simp
  qed
  have frame: "new ! j = new0 ! j" if "j \<notin> set (i # is)" for j
  proof -
    from that have "j \<notin> set is" "j \<noteq> i" by auto
    with ih have "new ! j = (new0[i := Some (copy d)]) ! j" by blast
    with \<open>j \<noteq> i\<close> show ?thesis by simp
  qed
  from len i at_i ih frame show ?case by auto
qed


lemma grow_params_covers:
  assumes "grow_params copy len parent_len arr = Inr arr'"
  shows "case arr' of None \<Rightarrow> True | Some a \<Rightarrow> unat len \<le> length a"
proof (cases "len > 0")
  case False
  then have "len = 0" by (simp add: word_less_nat_alt unat_eq_0)
  then show ?thesis by (simp split: option.splits)
next
  case True
  show ?thesis
  proof (cases arr)
    case None
    with True assms show ?thesis by (auto simp: grow_params_def)
  next
    case (Some old)
    with True assms obtain new where
      c: "copy_parent_params copy old (guint_range parent_len) (replicate (unat len) None) = Inr new"
      and n: "arr' = Some new"
      by (auto simp: grow_params_def split: sum.splits)
    from copy_parent_params_Inr [OF c] n show ?thesis by simp
  qed
qed

lemma add_params_records:
  assumes "ncm_model_class_add_params c sparam_len vparam_len nonparam_prop_len = Inr c'"
  shows "class_parent_sparam_len c' = class_sparam_len c"
    and "class_parent_vparam_len c' = class_vparam_len c"
    and "class_sparam_len c' = class_sparam_len c + sparam_len"
    and "class_vparam_len c' = class_vparam_len c + vparam_len"
    and "class_nonparam_prop_len c' = nonparam_prop_len"
    and "grow_params ncm_sparam_copy (class_sparam_len c + sparam_len) (class_sparam_len c)
           (class_sparam c) = Inr (class_sparam c')"
    and "grow_params ncm_vparam_copy (class_vparam_len c + vparam_len) (class_vparam_len c)
           (class_vparam c) = Inr (class_vparam c')"
  using assms
  by (auto simp: ncm_model_class_add_params_def Let_def split: sum.splits)












lemma sum_list_guint:
  fixes ws :: "guint list"
  shows "sum_list ws = of_nat (sum_list (map unat ws))"
  by (induction ws) simp_all

lemma two_level_setup:
  "class_setup two_level_calls ncm_model_class_init = Inr child_class"
  by (simp add: two_level_calls_def ncm_model_class_init_def child_class_def
        ncm_model_class_add_params_def grow_params_def guint_range_def
        ncm_model_class_set_sparam_def ncm_model_class_set_vparam_def sparam_prop_id_def
        vparam_prop_id_def vparam_prop_len_id_def Let_def ncm_sparam_copy_def)
     (simp add: numeral_2_eq_2)






lemma declared_child_added:
  "ncm_model_class_add_params unit_interval_class 1 1 1 = Inr declared_child_class"
  by (simp add: ncm_model_class_add_params_def unit_interval_class_def child_class_def
        declared_child_class_def grow_params_def guint_range_def Let_def ncm_sparam_copy_def)
     (simp add: numeral_2_eq_2)


subsection \<open>The arrays of a class are as long as its counts\<close>

text \<open>
  \<^verbatim>\<open>ncm_model_class_add_params\<close> leaves arrays of exactly the new counts, and the two
  registration functions change neither a count nor the length of an array. So in a class
  set up from the root class every index below a count is inside the array, and the copy
  loop of the next \<^verbatim>\<open>ncm_model_class_add_params\<close> reads inside the old array.
\<close>

lemma add_params_covers:
  assumes "ncm_model_class_add_params c sparam_len vparam_len nonparam_prop_len = Inr c'"
  shows "arrays_cover_counts c'"
  using grow_params_covers [OF add_params_records(6) [OF assms]]
    grow_params_covers [OF add_params_records(7) [OF assms]]
    add_params_records(3,4) [OF assms]
  by (auto simp: arrays_cover_counts_def split: option.splits)

lemma set_sparam_covers:
  assumes "ncm_model_class_set_sparam c i sy na lb ub sc ab dv pt = Inr c'"
    and "arrays_cover_counts c"
  shows "arrays_cover_counts c'"
  using assms
  by (auto simp: ncm_model_class_set_sparam_def arrays_cover_counts_def Let_def
        split: if_splits option.splits)

lemma set_vparam_covers:
  assumes "ncm_model_class_set_vparam c i dl sy na lb ub sc ab dv pt = Inr c'"
    and "arrays_cover_counts c"
  shows "arrays_cover_counts c'"
  using assms
  by (auto simp: ncm_model_class_set_vparam_def arrays_cover_counts_def Let_def
        split: if_splits option.splits)

lemma class_call_run_covers:
  assumes "class_call_run call c = Inr c'" and "arrays_cover_counts c"
  shows "arrays_cover_counts c'"
proof (cases call)
  case (Add_params s v n)
  with assms show ?thesis
    using add_params_covers [of c s v n c'] by simp
next
  case (Set_sparam i sy na lb ub sc ab dv pt)
  with assms show ?thesis
    using set_sparam_covers [of c i sy na lb ub sc ab dv pt c'] by simp
next
  case (Set_vparam i dl sy na lb ub sc ab dv pt)
  with assms show ?thesis
    using set_vparam_covers [of c i dl sy na lb ub sc ab dv pt c'] by simp
qed

lemma class_setup_covers:
  assumes "class_setup calls c = Inr c'" and "arrays_cover_counts c"
  shows "arrays_cover_counts c'"
  using assms
proof (induction calls arbitrary: c)
  case Nil
  then show ?case by simp
next
  case (Cons call calls)
  from Cons.prems obtain c1 where
    one: "class_call_run call c = Inr c1" and rest: "class_setup calls c1 = Inr c'"
    by (auto split: sum.splits)
  from class_call_run_covers [OF one Cons.prems(2)] Cons.IH [OF rest] show ?case
    by simp
qed

lemma class_setup_arrays:
  assumes "class_setup calls ncm_model_class_init = Inr c"
  shows "arrays_cover_counts c"
    and "class_sparam c = Some old \<Longrightarrow> i \<in> set (guint_range (class_sparam_len c)) \<Longrightarrow> i < length old"
    and "class_vparam c = Some vold \<Longrightarrow> j \<in> set (guint_range (class_vparam_len c)) \<Longrightarrow> j < length vold"
proof -
  have "arrays_cover_counts ncm_model_class_init"
    by (simp add: arrays_cover_counts_def ncm_model_class_init_def)
  from class_setup_covers [OF assms this] show a: "arrays_cover_counts c" .
  show "i < length old"
    if "class_sparam c = Some old" "i \<in> set (guint_range (class_sparam_len c))"
    using a that by (simp add: arrays_cover_counts_def guint_range_def)
  show "j < length vold"
    if "class_vparam c = Some vold" "j \<in> set (guint_range (class_vparam_len c))"
    using a that by (simp add: arrays_cover_counts_def guint_range_def)
qed

subsection \<open>An instance of a class with a vector parameter\<close>

text \<open>
  The two arrays \<^verbatim>\<open>vparam_len\<close> and \<^verbatim>\<open>vparam_pos\<close> of an instance have length 0 (see
  \<open>ncm_model_init\<close>), and the loop of \<^verbatim>\<open>_ncm_model_constructed\<close> reads \<^verbatim>\<open>vparam_len\<close> at every
  index below the vector count of the concrete class. For a class that has a vector
  parameter the first of these reads is outside the array.
\<close>

lemma constructed_reads_outside_vparam_len:
  assumes "class_vparam_len c \<noteq> 0"
  shows "ncm_model_constructed c s (ncm_model_init gtype) = Inl Invalid_memory"
proof -
  from assms have "0 < unat (class_vparam_len c)"
    by (simp add: unat_gt_0)
  then have "guint_range (class_vparam_len c) = 0 # [Suc 0..<unat (class_vparam_len c)]"
    by (simp add: guint_range_def upt_conv_Cons)
  then show ?thesis
    by (simp add: ncm_model_constructed_def ncm_model_init_def ncm_model_class_init_def Let_def)
qed

lemma child_class_instance:
  "ncm_model_constructed child_class empty_store (ncm_model_init 7) = Inl Invalid_memory"
  by (rule constructed_reads_outside_vparam_len) (simp add: child_class_def)


subsection \<open>The claim about the counts\<close>




end
